theory Spec2Isabelle
  imports Complex_Main "HOL-Library.Multiset"
begin

section \<open>HLTCaloJetTimingProducer: per-jet timing from ECAL cells\<close>

text \<open>
  The producer of \<^verbatim>\<open>HLTrigger/JetMET/plugins/HLTCaloJetTimingProducer.cc\<close>.
  The C++ \<^verbatim>\<open>float\<close> and \<^verbatim>\<open>double\<close> quantities are modelled by \<^typ>\<open>real\<close>:
  every sum, product and quotient below is exact, and comparisons are the comparisons
  of the real line. The three accumulators of the program are \<^verbatim>\<open>float\<close> variables;
  a second copy of the functions, further down, rounds every value stored in them. The
  cell counter is an \<^verbatim>\<open>unsigned int\<close>; a hit collection holds
  one entry per crystal at most, far below \<open>2^32\<close>, so the counter is a \<^typ>\<open>nat\<close>.
\<close>

subsection \<open>Data\<close>

text \<open>
  Modelled from the spec: the declaration of \<^verbatim>\<open>EcalRecHit\<close> is not part of the two
  source files. A hit carries a detector-cell identifier, the deposited energy, the
  measured time, the time uncertainty and a set of quality flags; the five flags the
  producer consults keep their enumerator names.
\<close>

datatype Flag = kSaturated | kLeadingEdgeRecovered | kPoorReco | kWeird | kDiWeird
  | kOtherFlag nat

type_synonym DetId = nat

record EcalRecHit =
  detid :: DetId
  energy :: real
  time :: real
  timeError :: real
  flagBits :: "Flag list"

definition checkFlag :: "EcalRecHit \<Rightarrow> Flag \<Rightarrow> bool" where
  "checkFlag ecalRH f = (f \<in> set (flagBits ecalRH))"

text \<open>
  Modelled from the spec: \<^verbatim>\<open>GlobalPoint\<close> and \<^verbatim>\<open>reco::CaloJet\<close> are declared
  elsewhere. The producer reads the polar angle of a cell position; the direction
  (pseudorapidity, azimuth) of the position and of the jet axis is what the angular
  distance is taken between.
\<close>

record GlobalPoint =
  pos_eta :: real
  pos_phi :: real
  theta :: real

record CaloJet =
  eta :: real
  phi :: real

text \<open>
  The members of the producer class: the two region flags, the four thresholds and the
  geometry handle \<^verbatim>\<open>_pG\<close>, a lookup from a cell identifier to its position.
\<close>

record HLTCaloJetTimingProducer =
  barrelJets :: bool
  endcapJets :: bool
  ecalCellEnergyThresh :: real
  ecalCellTimeThresh :: real
  ecalCellTimeErrorThresh :: real
  matchingRadius2 :: real
  pG :: "DetId \<Rightarrow> GlobalPoint"

text \<open>
  \<^verbatim>\<open>reco::deltaR2\<close> lives in a header outside the two source files: every function
  below takes it as its first argument \<open>deltaR2\<close>, and every theorem holds for any such
  function.
\<close>

type_synonym accumulators = "real \<times> real \<times> nat"

subsection \<open>jetTimeFromEcalCells\<close>

text \<open>
  One iteration of the range-for loop: each \<^verbatim>\<open>continue\<close> leaves the three
  accumulators (weightedTimeCell, totalEmEnergyCell, nCells) as they are.
\<close>

definition cell_step ::
  "(CaloJet \<Rightarrow> GlobalPoint \<Rightarrow> real) \<Rightarrow> HLTCaloJetTimingProducer \<Rightarrow> CaloJet \<Rightarrow>
   EcalRecHit \<Rightarrow> accumulators \<Rightarrow> accumulators" where
  "cell_step deltaR2 self jet ecalRH acc =
     (case acc of (weightedTimeCell, totalEmEnergyCell, nCells) \<Rightarrow>
        if checkFlag ecalRH kSaturated \<or> checkFlag ecalRH kLeadingEdgeRecovered \<or>
           checkFlag ecalRH kPoorReco \<or> checkFlag ecalRH kWeird \<or>
           checkFlag ecalRH kDiWeird
        then acc
        else if energy ecalRH < ecalCellEnergyThresh self then acc
        else if timeError ecalRH \<le> 0 \<or> timeError ecalRH > ecalCellTimeErrorThresh self
        then acc
        else if \<bar>time ecalRH\<bar> > ecalCellTimeThresh self then acc
        else
          let pos = pG self (detid ecalRH) in
          if deltaR2 jet pos > matchingRadius2 self then acc
          else (weightedTimeCell + time ecalRH * energy ecalRH * sin (theta pos),
                totalEmEnergyCell + energy ecalRH * sin (theta pos),
                nCells + 1))"

fun cells_loop ::
  "(CaloJet \<Rightarrow> GlobalPoint \<Rightarrow> real) \<Rightarrow> HLTCaloJetTimingProducer \<Rightarrow> CaloJet \<Rightarrow>
   EcalRecHit list \<Rightarrow> accumulators \<Rightarrow> accumulators" where
  "cells_loop deltaR2 self jet [] acc = acc"
| "cells_loop deltaR2 self jet (ecalRH # ecalRecHits) acc =
     cells_loop deltaR2 self jet ecalRecHits (cell_step deltaR2 self jet ecalRH acc)"

text \<open>The whole function: the loop, then the guarded division of the numerator.\<close>

definition jetTimeFromEcalCells ::
  "(CaloJet \<Rightarrow> GlobalPoint \<Rightarrow> real) \<Rightarrow> HLTCaloJetTimingProducer \<Rightarrow> CaloJet \<Rightarrow>
   EcalRecHit list \<Rightarrow> accumulators \<Rightarrow> accumulators" where
  "jetTimeFromEcalCells deltaR2 self jet ecalRecHits acc =
     (case cells_loop deltaR2 self jet ecalRecHits acc of
        (weightedTimeCell, totalEmEnergyCell, nCells) \<Rightarrow>
          (if totalEmEnergyCell > 0 then weightedTimeCell / totalEmEnergyCell
           else weightedTimeCell,
           totalEmEnergyCell, nCells))"

subsection \<open>produce\<close>

text \<open>
  The body of the loop over the jets: the triple pushed onto jetTimings,
  jetEcalEtForTiming and jetCellsForTiming for one jet.
\<close>

definition emit :: "accumulators \<Rightarrow> real \<times> real \<times> nat" where
  "emit acc =
     (case acc of (weightedTimeCell, totalEmEnergyCell, nCells) \<Rightarrow>
        (if totalEmEnergyCell > 0 then weightedTimeCell else - 50,
         totalEmEnergyCell, nCells))"

definition produce_jet ::
  "(CaloJet \<Rightarrow> GlobalPoint \<Rightarrow> real) \<Rightarrow> HLTCaloJetTimingProducer \<Rightarrow> CaloJet \<Rightarrow>
   EcalRecHit list \<Rightarrow> EcalRecHit list \<Rightarrow> real \<times> real \<times> nat" where
  "produce_jet deltaR2 self jet ecalRecHitsEB ecalRecHitsEE =
     (let acc0 = (0, 0, 0);
          acc1 = (if barrelJets self
                  then jetTimeFromEcalCells deltaR2 self jet ecalRecHitsEB acc0
                  else acc0);
          acc2 = (if endcapJets self
                  then (case acc1 of (weightedTimeCell, totalEmEnergyCell, nCells) \<Rightarrow>
                          jetTimeFromEcalCells deltaR2 self jet ecalRecHitsEE
                            (weightedTimeCell * totalEmEnergyCell, totalEmEnergyCell, nCells))
                  else acc1)
      in emit acc2)"

text \<open>The three parallel value maps, in the order of the jet collection.\<close>

definition produce_timing ::
  "(CaloJet \<Rightarrow> GlobalPoint \<Rightarrow> real) \<Rightarrow> HLTCaloJetTimingProducer \<Rightarrow> CaloJet list \<Rightarrow>
   EcalRecHit list \<Rightarrow> EcalRecHit list \<Rightarrow> real list \<times> real list \<times> nat list" where
  "produce_timing deltaR2 self jets ecalRecHitsEB ecalRecHitsEE =
     (let rs = map (\<lambda>jet. produce_jet deltaR2 self jet ecalRecHitsEB ecalRecHitsEE) jets
      in (map fst rs, map (fst \<circ> snd) rs, map (snd \<circ> snd) rs))"

text \<open>The defaults that \<^verbatim>\<open>fillDescriptions\<close> declares, around a given geometry.\<close>

definition fillDescriptions :: "(DetId \<Rightarrow> GlobalPoint) \<Rightarrow> HLTCaloJetTimingProducer" where
  "fillDescriptions geometry =
     \<lparr>barrelJets = False, endcapJets = False, ecalCellEnergyThresh = 0.5,
      ecalCellTimeThresh = 12.5, ecalCellTimeErrorThresh = 100, matchingRadius2 = 0.16,
      pG = geometry\<rparr>"

subsection \<open>Rounded accumulators\<close>

text \<open>
  The accumulators weightedTimeCell and totalEmEnergyCell are \<^verbatim>\<open>float\<close> variables:
  whatever an assignment computes is rounded when it is stored in them. The functions
  below are the functions above with a rounding function \<open>fl\<close> applied at each such
  store: the two sums of the loop body, the division of \<^verbatim>\<open>jetTimeFromEcalCells\<close> and
  the multiplication of \<^verbatim>\<open>produce\<close>. The division and the multiplication are
  operations on two \<^verbatim>\<open>float\<close> values, rounded once, as here. The increments of the
  two sums are computed by the program in a precision that the two source files do
  not fix (the types of the polar angle and of its sine are declared elsewhere); here
  they are taken exact before the store, which is what the program does whenever the
  increments and the sums are representable. With the identity for \<open>fl\<close> the functions
  are the functions above.
\<close>

definition cell_step_fl ::
  "(real \<Rightarrow> real) \<Rightarrow> (CaloJet \<Rightarrow> GlobalPoint \<Rightarrow> real) \<Rightarrow> HLTCaloJetTimingProducer \<Rightarrow>
   CaloJet \<Rightarrow> EcalRecHit \<Rightarrow> accumulators \<Rightarrow> accumulators" where
  "cell_step_fl fl deltaR2 self jet ecalRH acc =
     (case acc of (weightedTimeCell, totalEmEnergyCell, nCells) \<Rightarrow>
        if checkFlag ecalRH kSaturated \<or> checkFlag ecalRH kLeadingEdgeRecovered \<or>
           checkFlag ecalRH kPoorReco \<or> checkFlag ecalRH kWeird \<or>
           checkFlag ecalRH kDiWeird
        then acc
        else if energy ecalRH < ecalCellEnergyThresh self then acc
        else if timeError ecalRH \<le> 0 \<or> timeError ecalRH > ecalCellTimeErrorThresh self
        then acc
        else if \<bar>time ecalRH\<bar> > ecalCellTimeThresh self then acc
        else
          let pos = pG self (detid ecalRH) in
          if deltaR2 jet pos > matchingRadius2 self then acc
          else (fl (weightedTimeCell + time ecalRH * energy ecalRH * sin (theta pos)),
                fl (totalEmEnergyCell + energy ecalRH * sin (theta pos)),
                nCells + 1))"

fun cells_loop_fl ::
  "(real \<Rightarrow> real) \<Rightarrow> (CaloJet \<Rightarrow> GlobalPoint \<Rightarrow> real) \<Rightarrow> HLTCaloJetTimingProducer \<Rightarrow>
   CaloJet \<Rightarrow> EcalRecHit list \<Rightarrow> accumulators \<Rightarrow> accumulators" where
  "cells_loop_fl fl deltaR2 self jet [] acc = acc"
| "cells_loop_fl fl deltaR2 self jet (ecalRH # ecalRecHits) acc =
     cells_loop_fl fl deltaR2 self jet ecalRecHits (cell_step_fl fl deltaR2 self jet ecalRH acc)"

definition jetTimeFromEcalCells_fl ::
  "(real \<Rightarrow> real) \<Rightarrow> (CaloJet \<Rightarrow> GlobalPoint \<Rightarrow> real) \<Rightarrow> HLTCaloJetTimingProducer \<Rightarrow>
   CaloJet \<Rightarrow> EcalRecHit list \<Rightarrow> accumulators \<Rightarrow> accumulators" where
  "jetTimeFromEcalCells_fl fl deltaR2 self jet ecalRecHits acc =
     (case cells_loop_fl fl deltaR2 self jet ecalRecHits acc of
        (weightedTimeCell, totalEmEnergyCell, nCells) \<Rightarrow>
          (if totalEmEnergyCell > 0 then fl (weightedTimeCell / totalEmEnergyCell)
           else weightedTimeCell,
           totalEmEnergyCell, nCells))"

definition produce_jet_fl ::
  "(real \<Rightarrow> real) \<Rightarrow> (CaloJet \<Rightarrow> GlobalPoint \<Rightarrow> real) \<Rightarrow> HLTCaloJetTimingProducer \<Rightarrow>
   CaloJet \<Rightarrow> EcalRecHit list \<Rightarrow> EcalRecHit list \<Rightarrow> real \<times> real \<times> nat" where
  "produce_jet_fl fl deltaR2 self jet ecalRecHitsEB ecalRecHitsEE =
     (let acc0 = (0, 0, 0);
          acc1 = (if barrelJets self
                  then jetTimeFromEcalCells_fl fl deltaR2 self jet ecalRecHitsEB acc0
                  else acc0);
          acc2 = (if endcapJets self
                  then (case acc1 of (weightedTimeCell, totalEmEnergyCell, nCells) \<Rightarrow>
                          jetTimeFromEcalCells_fl fl deltaR2 self jet ecalRecHitsEE
                            (fl (weightedTimeCell * totalEmEnergyCell), totalEmEnergyCell,
                             nCells))
                  else acc1)
      in emit acc2)"

text \<open>
  Rounding to \<^verbatim>\<open>float\<close>, the binary32 format: 24 significant bits, exponents from
  -126 to 127, round to nearest, ties to the even significand. \<open>rne\<close> rounds a real to
  the nearest integer, ties to the even one; \<open>binary32_exponent\<close> finds, for a positive
  magnitude, the largest exponent between -126 and 127 whose power of two is not above
  it (-126 for the subnormal numbers); \<open>binary32\<close> rounds to the nearest multiple of
  the unit in the last place of that exponent. Overflow to infinity is not part of the
  model: the function is meant for magnitudes below \<open>2^128\<close>.
\<close>

definition rne :: "real \<Rightarrow> int" where
  "rne x = (let f = \<lfloor>x\<rfloor>; r = x - of_int f in
            if r < 1 / 2 then f else if r > 1 / 2 then f + 1
            else if even f then f else f + 1)"

fun exp_up :: "nat \<Rightarrow> int \<Rightarrow> real \<Rightarrow> int" where
  "exp_up 0 e a = e"
| "exp_up (Suc n) e a = (if a < 2 powi (e + 1) then e else exp_up n (e + 1) a)"

fun exp_down :: "nat \<Rightarrow> int \<Rightarrow> real \<Rightarrow> int" where
  "exp_down 0 e a = e"
| "exp_down (Suc n) e a = (if 2 powi e \<le> a then e else exp_down n (e - 1) a)"

definition binary32_exponent :: "real \<Rightarrow> int" where
  "binary32_exponent a = (if 1 \<le> a then exp_up 127 0 a else exp_down 125 (- 1) a)"

definition binary32 :: "real \<Rightarrow> real" where
  "binary32 x =
     (if x = 0 then 0
      else let u = 2 powi (binary32_exponent \<bar>x\<bar> - 23) in of_int (rne (x / u)) * u)"

section \<open>HLTPFDiJetCorrCheckerWithDiTau: jet pairs cross-cleaned against tau pairs\<close>

text \<open>
  The producer of \<^verbatim>\<open>RecoTauTag/HLTProducers/src/HLTPFDiJetCorrCheckerWithDiTau.cc\<close>.
  The loop counters are \<^verbatim>\<open>unsigned int\<close>; they stay below the sizes of the two
  collections, so they are \<^typ>\<open>nat\<close>.
\<close>

subsection \<open>Data\<close>

text \<open>
  Modelled from the spec: the four-momentum type and its operations are declared
  outside the two source files. A four-momentum has three momentum components and an
  energy; the sum of two four-momenta is taken by components, and the invariant mass
  \<open>M\<close> is the magnitude of a four-momentum, the root of \<open>E\<^sup>2 - |p|\<^sup>2\<close> (the
  root of a negative number being minus the root of its absolute value, which is how
  \<^const>\<open>sqrt\<close> extends to the negative reals).
\<close>

record LorentzVector =
  Px :: real
  Py :: real
  Pz :: real
  E :: real

definition plus_p4 :: "LorentzVector \<Rightarrow> LorentzVector \<Rightarrow> LorentzVector" where
  "plus_p4 a b = \<lparr>Px = Px a + Px b, Py = Py a + Py b, Pz = Pz a + Pz b, E = E a + E b\<rparr>"

definition M :: "LorentzVector \<Rightarrow> real" where
  "M v = sqrt ((E v)\<^sup>2 - ((Px v)\<^sup>2 + (Py v)\<^sup>2 + (Pz v)\<^sup>2))"

text \<open>
  Modelled from the spec: jets and taus are candidates, of which the producer reads the
  transverse momentum and the four-momentum. The transverse momentum is a field of its
  own; no theorem relies on how it relates to the four-momentum.
\<close>

record Candidate =
  pt :: real
  p4 :: LorentzVector

type_synonym PFJet = Candidate
type_synonym PFTau = Candidate

text \<open>
  The members of the class; the constructor stores the square of \<^verbatim>\<open>dRmin\<close>.
\<close>

record HLTPFDiJetCorrCheckerWithDiTau =
  extraTauPtCut :: real
  mjjMin :: real
  matchingR2 :: real

definition HLTPFDiJetCorrCheckerWithDiTau_ctor ::
  "real \<Rightarrow> real \<Rightarrow> real \<Rightarrow> HLTPFDiJetCorrCheckerWithDiTau" where
  "HLTPFDiJetCorrCheckerWithDiTau_ctor extraTauPtCut' mjjMin' dRmin =
     \<lparr>extraTauPtCut = extraTauPtCut', mjjMin = mjjMin', matchingR2 = dRmin\<^sup>2\<rparr>"

text \<open>
  Modelled from the spec: the comparator \<^verbatim>\<open>GreaterByPt\<close> is declared outside the two
  source files; it is the standard jet comparator that sorts descending by transverse
  momentum, so it puts \<open>t1\<close> before \<open>t2\<close> when \<open>t1\<close> has the greater one.
\<close>

definition GreaterByPt :: "Candidate \<Rightarrow> Candidate \<Rightarrow> bool" where
  "GreaterByPt t1 t2 = (pt t1 > pt t2)"

subsection \<open>The standard containers\<close>

text \<open>
  \<^verbatim>\<open>std::set<unsigned int>\<close>: the elements in ascending order, each once.
\<close>

fun set_insert :: "nat \<Rightarrow> nat list \<Rightarrow> nat list" where
  "set_insert i [] = [i]"
| "set_insert i (k # ks) =
     (if i < k then i # k # ks else if i = k then k # ks else k # set_insert i ks)"

text \<open>
  \<^verbatim>\<open>std::sort\<close> with a comparator. The standard leaves the order of elements that
  the comparator does not separate unspecified; the model keeps them in their order of
  arrival, and no theorem below depends on that choice.
\<close>

fun insert_sorted :: "('a \<Rightarrow> 'a \<Rightarrow> bool) \<Rightarrow> 'a \<Rightarrow> 'a list \<Rightarrow> 'a list" where
  "insert_sorted cmp x [] = [x]"
| "insert_sorted cmp x (y # ys) =
     (if cmp x y then x # y # ys else y # insert_sorted cmp x ys)"

definition std_sort :: "('a \<Rightarrow> 'a \<Rightarrow> bool) \<Rightarrow> 'a list \<Rightarrow> 'a list" where
  "std_sort cmp xs = fold (insert_sorted cmp) xs []"

subsection \<open>produce\<close>

text \<open>
  The four nested loops, innermost first. \<^verbatim>\<open>reco::deltaR2\<close> is again the first
  argument of every function.
\<close>

definition tau2_step ::
  "(LorentzVector \<Rightarrow> LorentzVector \<Rightarrow> real) \<Rightarrow> HLTPFDiJetCorrCheckerWithDiTau \<Rightarrow>
   PFJet \<Rightarrow> PFJet \<Rightarrow> PFTau list \<Rightarrow> nat \<Rightarrow> nat \<Rightarrow> bool \<Rightarrow> bool" where
  "tau2_step deltaR2 self myPFJet1 myPFJet2 taus iTau1 iTau2 correctComb =
     (if deltaR2 (p4 (taus ! iTau2)) (p4 myPFJet1) < matchingR2 self then correctComb
      else if deltaR2 (p4 (taus ! iTau2)) (p4 myPFJet2) < matchingR2 self then correctComb
      else if pt (taus ! iTau1) < extraTauPtCut self \<and> pt (taus ! iTau2) < extraTauPtCut self
      then correctComb
      else True)"

definition tau1_step ::
  "(LorentzVector \<Rightarrow> LorentzVector \<Rightarrow> real) \<Rightarrow> HLTPFDiJetCorrCheckerWithDiTau \<Rightarrow>
   PFJet \<Rightarrow> PFJet \<Rightarrow> PFTau list \<Rightarrow> nat \<Rightarrow> bool \<Rightarrow> bool" where
  "tau1_step deltaR2 self myPFJet1 myPFJet2 taus iTau1 correctComb =
     (if deltaR2 (p4 (taus ! iTau1)) (p4 myPFJet1) < matchingR2 self then correctComb
      else if deltaR2 (p4 (taus ! iTau1)) (p4 myPFJet2) < matchingR2 self then correctComb
      else fold (tau2_step deltaR2 self myPFJet1 myPFJet2 taus iTau1)
             [iTau1 + 1 ..< length taus] correctComb)"

text \<open>The flag \<^verbatim>\<open>correctComb\<close> of a jet pair once the two tau loops have run.\<close>

definition correctComb_of ::
  "(LorentzVector \<Rightarrow> LorentzVector \<Rightarrow> real) \<Rightarrow> HLTPFDiJetCorrCheckerWithDiTau \<Rightarrow>
   PFJet \<Rightarrow> PFJet \<Rightarrow> PFTau list \<Rightarrow> bool" where
  "correctComb_of deltaR2 self myPFJet1 myPFJet2 taus =
     fold (tau1_step deltaR2 self myPFJet1 myPFJet2 taus) [0 ..< length taus] False"

definition jet2_step ::
  "(LorentzVector \<Rightarrow> LorentzVector \<Rightarrow> real) \<Rightarrow> HLTPFDiJetCorrCheckerWithDiTau \<Rightarrow>
   PFJet list \<Rightarrow> PFTau list \<Rightarrow> nat \<Rightarrow> nat \<Rightarrow> nat list \<Rightarrow> nat list" where
  "jet2_step deltaR2 self pfJets taus iJet1 iJet2 indices =
     (let myPFJet1 = pfJets ! iJet1; myPFJet2 = pfJets ! iJet2 in
      if M (plus_p4 (p4 myPFJet1) (p4 myPFJet2)) < mjjMin self then indices
      else if correctComb_of deltaR2 self myPFJet1 myPFJet2 taus
      then set_insert iJet2 (set_insert iJet1 indices)
      else indices)"

definition jet1_step ::
  "(LorentzVector \<Rightarrow> LorentzVector \<Rightarrow> real) \<Rightarrow> HLTPFDiJetCorrCheckerWithDiTau \<Rightarrow>
   PFJet list \<Rightarrow> PFTau list \<Rightarrow> nat \<Rightarrow> nat list \<Rightarrow> nat list" where
  "jet1_step deltaR2 self pfJets taus iJet1 indices =
     fold (jet2_step deltaR2 self pfJets taus iJet1) [iJet1 + 1 ..< length pfJets] indices"

text \<open>
  The index set after the loops; it stays empty when one of the collections has fewer
  than two elements.
\<close>

definition collect_indices ::
  "(LorentzVector \<Rightarrow> LorentzVector \<Rightarrow> real) \<Rightarrow> HLTPFDiJetCorrCheckerWithDiTau \<Rightarrow>
   PFJet list \<Rightarrow> PFTau list \<Rightarrow> nat list" where
  "collect_indices deltaR2 self pfJets taus =
     (if length pfJets > 1 \<and> length taus > 1
      then fold (jet1_step deltaR2 self pfJets taus) [0 ..< length pfJets] []
      else [])"

definition produce_dijet ::
  "(LorentzVector \<Rightarrow> LorentzVector \<Rightarrow> real) \<Rightarrow> HLTPFDiJetCorrCheckerWithDiTau \<Rightarrow>
   PFJet list \<Rightarrow> PFTau list \<Rightarrow> PFJet list" where
  "produce_dijet deltaR2 self pfJets taus =
     (let cleanedPFJets = map (\<lambda>i. pfJets ! i) (collect_indices deltaR2 self pfJets taus)
      in std_sort GreaterByPt cleanedPFJets)"

section \<open>The notions of the specification\<close>

subsection \<open>Qualifying cells and their weighted sums\<close>

text \<open>
  The rejection of a cell in the words of the specification: a disqualifying quality
  flag is set, or the energy is below the energy threshold, or the time uncertainty is
  not positive or above its threshold, or the magnitude of the time is above the time
  threshold, or the squared angular distance between the position of the cell and the
  jet axis exceeds the squared matching radius.
\<close>

definition rejected ::
  "(CaloJet \<Rightarrow> GlobalPoint \<Rightarrow> real) \<Rightarrow> HLTCaloJetTimingProducer \<Rightarrow> CaloJet \<Rightarrow>
   EcalRecHit \<Rightarrow> bool" where
  "rejected deltaR2 self jet ecalRH =
     ((checkFlag ecalRH kSaturated \<or> checkFlag ecalRH kLeadingEdgeRecovered \<or>
       checkFlag ecalRH kPoorReco \<or> checkFlag ecalRH kWeird \<or> checkFlag ecalRH kDiWeird) \<or>
      energy ecalRH < ecalCellEnergyThresh self \<or>
      (timeError ecalRH \<le> 0 \<or> timeError ecalRH > ecalCellTimeErrorThresh self) \<or>
      \<bar>time ecalRH\<bar> > ecalCellTimeThresh self \<or>
      deltaR2 jet (pG self (detid ecalRH)) > matchingRadius2 self)"

text \<open>
  The qualifying cells of a hit collection, in the order of the collection; the weight
  of a cell, its energy times the sine of its polar angle; and the two sums of the
  weighted mean over a list of cells.
\<close>

definition qualifying_cells ::
  "(CaloJet \<Rightarrow> GlobalPoint \<Rightarrow> real) \<Rightarrow> HLTCaloJetTimingProducer \<Rightarrow> CaloJet \<Rightarrow>
   EcalRecHit list \<Rightarrow> EcalRecHit list" where
  "qualifying_cells deltaR2 self jet ecalRecHits =
     filter (\<lambda>ecalRH. \<not> rejected deltaR2 self jet ecalRH) ecalRecHits"

definition cell_weight :: "HLTCaloJetTimingProducer \<Rightarrow> EcalRecHit \<Rightarrow> real" where
  "cell_weight self ecalRH = energy ecalRH * sin (theta (pG self (detid ecalRH)))"

definition sum_time_weight :: "HLTCaloJetTimingProducer \<Rightarrow> EcalRecHit list \<Rightarrow> real" where
  "sum_time_weight self cells =
     (\<Sum>ecalRH\<leftarrow>cells. time ecalRH * energy ecalRH * sin (theta (pG self (detid ecalRH))))"

definition sum_weight :: "HLTCaloJetTimingProducer \<Rightarrow> EcalRecHit list \<Rightarrow> real" where
  "sum_weight self cells = (\<Sum>ecalRH\<leftarrow>cells. cell_weight self ecalRH)"

text \<open>
  The per-jet result computed directly: the weighted mean time of the qualifying cells
  when their total weight is positive and the sentinel otherwise, the total weight,
  and the number of qualifying cells.
\<close>

definition weighted_mean_reference ::
  "(CaloJet \<Rightarrow> GlobalPoint \<Rightarrow> real) \<Rightarrow> HLTCaloJetTimingProducer \<Rightarrow> CaloJet \<Rightarrow>
   EcalRecHit list \<Rightarrow> real \<times> real \<times> nat" where
  "weighted_mean_reference deltaR2 self jet ecalRecHits =
     (let cells = qualifying_cells deltaR2 self jet ecalRecHits in
      (if sum_weight self cells > 0
       then sum_time_weight self cells / sum_weight self cells else - 50,
       sum_weight self cells, length cells))"

subsection \<open>Qualifying tau pairs and jet pairs\<close>

text \<open>
  A tau is isolated from a jet pair when its squared angular distance to each of the
  two jets is at least the squared matching radius. In the words of the specification
  and of the header of the source file, a tau pair qualifies for a jet pair when the
  first tau comes before the second in the tau sequence, both are isolated from the
  jet pair and from each other, and at least one of them reaches the leading
  transverse-momentum cut; a jet pair qualifies when its invariant mass reaches the
  mass threshold and some tau pair qualifies for it.
\<close>

definition isolated ::
  "(LorentzVector \<Rightarrow> LorentzVector \<Rightarrow> real) \<Rightarrow> HLTPFDiJetCorrCheckerWithDiTau \<Rightarrow>
   PFJet \<Rightarrow> PFJet \<Rightarrow> PFTau \<Rightarrow> bool" where
  "isolated deltaR2 self j1 j2 tau =
     (deltaR2 (p4 tau) (p4 j1) \<ge> matchingR2 self \<and> deltaR2 (p4 tau) (p4 j2) \<ge> matchingR2 self)"

definition qualifying_tau_pair ::
  "(LorentzVector \<Rightarrow> LorentzVector \<Rightarrow> real) \<Rightarrow> HLTPFDiJetCorrCheckerWithDiTau \<Rightarrow>
   PFJet \<Rightarrow> PFJet \<Rightarrow> PFTau list \<Rightarrow> nat \<Rightarrow> nat \<Rightarrow> bool" where
  "qualifying_tau_pair deltaR2 self j1 j2 taus iTau1 iTau2 =
     (iTau1 < iTau2 \<and> iTau2 < length taus \<and>
      isolated deltaR2 self j1 j2 (taus ! iTau1) \<and> isolated deltaR2 self j1 j2 (taus ! iTau2) \<and>
      deltaR2 (p4 (taus ! iTau1)) (p4 (taus ! iTau2)) \<ge> matchingR2 self \<and>
      (pt (taus ! iTau1) \<ge> extraTauPtCut self \<or> pt (taus ! iTau2) \<ge> extraTauPtCut self))"

definition qualifying_jet_pair ::
  "(LorentzVector \<Rightarrow> LorentzVector \<Rightarrow> real) \<Rightarrow> HLTPFDiJetCorrCheckerWithDiTau \<Rightarrow>
   PFJet list \<Rightarrow> PFTau list \<Rightarrow> nat \<Rightarrow> nat \<Rightarrow> bool" where
  "qualifying_jet_pair deltaR2 self pfJets taus iJet1 iJet2 =
     (iJet1 < iJet2 \<and> iJet2 < length pfJets \<and>
      M (plus_p4 (p4 (pfJets ! iJet1)) (p4 (pfJets ! iJet2))) \<ge> mjjMin self \<and>
      list_ex (\<lambda>iTau2. list_ex (\<lambda>iTau1.
          qualifying_tau_pair deltaR2 self (pfJets ! iJet1) (pfJets ! iJet2) taus iTau1 iTau2)
        [0 ..< iTau2]) [0 ..< length taus])"

subsection \<open>What the loops test\<close>

text \<open>
  Read off the source: the two tau loops let a tau pair pass when the first tau comes
  before the second, both are isolated from the jet pair, and at least one of them
  reaches the transverse-momentum cut; the two taus are not compared with each other.
  The jet loops mark a jet pair when its invariant mass is not below the mass threshold
  and some tau pair passes. The lemmas on the loops prove that this is what they
  compute.
\<close>

definition tau_pair_passes ::
  "(LorentzVector \<Rightarrow> LorentzVector \<Rightarrow> real) \<Rightarrow> HLTPFDiJetCorrCheckerWithDiTau \<Rightarrow>
   PFJet \<Rightarrow> PFJet \<Rightarrow> PFTau list \<Rightarrow> nat \<Rightarrow> nat \<Rightarrow> bool" where
  "tau_pair_passes deltaR2 self j1 j2 taus iTau1 iTau2 =
     (iTau1 < iTau2 \<and> iTau2 < length taus \<and>
      isolated deltaR2 self j1 j2 (taus ! iTau1) \<and> isolated deltaR2 self j1 j2 (taus ! iTau2) \<and>
      (pt (taus ! iTau1) \<ge> extraTauPtCut self \<or> pt (taus ! iTau2) \<ge> extraTauPtCut self))"

definition pair_marked ::
  "(LorentzVector \<Rightarrow> LorentzVector \<Rightarrow> real) \<Rightarrow> HLTPFDiJetCorrCheckerWithDiTau \<Rightarrow>
   PFJet list \<Rightarrow> PFTau list \<Rightarrow> nat \<Rightarrow> nat \<Rightarrow> bool" where
  "pair_marked deltaR2 self pfJets taus iJet1 iJet2 =
     (iJet1 < iJet2 \<and> iJet2 < length pfJets \<and>
      M (plus_p4 (p4 (pfJets ! iJet1)) (p4 (pfJets ! iJet2))) \<ge> mjjMin self \<and>
      list_ex (\<lambda>iTau2. list_ex (\<lambda>iTau1.
          tau_pair_passes deltaR2 self (pfJets ! iJet1) (pfJets ! iJet2) taus iTau1 iTau2)
        [0 ..< iTau2]) [0 ..< length taus])"

section \<open>Example inputs\<close>

text \<open>
  Modelled from the spec: the angular distance of the glossary, the sum of the squared
  differences in pseudorapidity and in azimuth, the azimuthal difference being taken on
  the circle. It stands for \<^verbatim>\<open>reco::deltaR2\<close> wherever the producers are run on
  concrete inputs.
\<close>

definition deltaR2_eta_phi :: "CaloJet \<Rightarrow> GlobalPoint \<Rightarrow> real" where
  "deltaR2_eta_phi jet pos =
     (let deta = eta jet - pos_eta pos; dphi = \<bar>phi jet - pos_phi pos\<bar> in
      deta\<^sup>2 + (if dphi > pi then dphi - 2 * pi else dphi)\<^sup>2)"

text \<open>A geometry with every cell at the centre of the barrel, and a jet pointing there.\<close>

definition central_geometry :: "DetId \<Rightarrow> GlobalPoint" where
  "central_geometry d = \<lparr>pos_eta = 0, pos_phi = 0, theta = pi / 2\<rparr>"

text \<open>A geometry with the cells on the central ring, a quarter of a radian apart.\<close>

definition ring_geometry :: "DetId \<Rightarrow> GlobalPoint" where
  "ring_geometry d = \<lparr>pos_eta = 0, pos_phi = real d / 4, theta = pi / 2\<rparr>"

definition hit :: "DetId \<Rightarrow> real \<Rightarrow> real \<Rightarrow> real \<Rightarrow> Flag list \<Rightarrow> EcalRecHit" where
  "hit d e t te fs = \<lparr>detid = d, energy = e, time = t, timeError = te, flagBits = fs\<rparr>"

definition axis :: CaloJet where
  "axis = \<lparr>eta = 0, phi = 0\<rparr>"

text \<open>
  Modelled from the spec: pseudorapidity and azimuth of a four-momentum with a non-zero
  transverse part, and the angular distance of the glossary between two four-momenta.
\<close>

definition Eta :: "LorentzVector \<Rightarrow> real" where
  "Eta v = arsinh (Pz v / sqrt ((Px v)\<^sup>2 + (Py v)\<^sup>2))"

definition Phi :: "LorentzVector \<Rightarrow> real" where
  "Phi v = (if Py v \<ge> 0 then arccos (Px v / sqrt ((Px v)\<^sup>2 + (Py v)\<^sup>2))
            else - arccos (Px v / sqrt ((Px v)\<^sup>2 + (Py v)\<^sup>2)))"

definition deltaR2_p4 :: "LorentzVector \<Rightarrow> LorentzVector \<Rightarrow> real" where
  "deltaR2_p4 a b =
     (let deta = Eta a - Eta b; dphi = \<bar>Phi a - Phi b\<bar> in
      deta\<^sup>2 + (if dphi > pi then dphi - 2 * pi else dphi)\<^sup>2)"

definition xyzt :: "real \<Rightarrow> real \<Rightarrow> real \<Rightarrow> real \<Rightarrow> LorentzVector" where
  "xyzt x y z t = \<lparr>Px = x, Py = y, Pz = z, E = t\<rparr>"

text \<open>
  Three massless jets and a massless tau in the transverse plane: jet A along \<open>x\<close>, jet
  B against \<open>x\<close>, jet C against \<open>y\<close>, the tau along \<open>y\<close>. The configuration has the tau
  cut at 1 and \<open>dRmin\<close> at 1/2.
\<close>

definition jetA :: PFJet where "jetA = \<lparr>pt = 2, p4 = xyzt 2 0 0 2\<rparr>"
definition jetB :: PFJet where "jetB = \<lparr>pt = 1, p4 = xyzt (- 1) 0 0 1\<rparr>"
definition jetC :: PFJet where "jetC = \<lparr>pt = 1, p4 = xyzt 0 (- 1) 0 1\<rparr>"
definition tauD :: PFTau where "tauD = \<lparr>pt = 1, p4 = xyzt 0 1 0 1\<rparr>"

definition vbf :: "real \<Rightarrow> HLTPFDiJetCorrCheckerWithDiTau" where
  "vbf m = HLTPFDiJetCorrCheckerWithDiTau_ctor 1 m (1 / 2)"

section \<open>The timing producer: lemmas\<close>

lemma cell_step_rejected:
  "rejected deltaR2 self jet ecalRH \<Longrightarrow> cell_step deltaR2 self jet ecalRH acc = acc"
  by (auto simp: cell_step_def rejected_def Let_def split: prod.splits)

lemma cell_step_accepted:
  "\<not> rejected deltaR2 self jet ecalRH \<Longrightarrow>
   cell_step deltaR2 self jet ecalRH (w, e, n) =
     (w + time ecalRH * energy ecalRH * sin (theta (pG self (detid ecalRH))),
      e + cell_weight self ecalRH, Suc n)"
  by (auto simp: cell_step_def rejected_def cell_weight_def Let_def)

lemma cells_loop_sums:
  "cells_loop deltaR2 self jet ecalRecHits (w, e, n) =
     (w + sum_time_weight self (qualifying_cells deltaR2 self jet ecalRecHits),
      e + sum_weight self (qualifying_cells deltaR2 self jet ecalRecHits),
      n + length (qualifying_cells deltaR2 self jet ecalRecHits))"
proof (induction ecalRecHits arbitrary: w e n)
  case Nil
  show ?case by (simp add: qualifying_cells_def sum_time_weight_def sum_weight_def)
next
  case (Cons h hs)
  show ?case
  proof (cases "rejected deltaR2 self jet h")
    case True
    then show ?thesis
      using Cons.IH [of w e n] by (simp add: cell_step_rejected qualifying_cells_def)
  next
    case False
    then show ?thesis
      using Cons.IH by (simp add: cell_step_accepted qualifying_cells_def
          sum_time_weight_def sum_weight_def algebra_simps)
  qed
qed

lemma jetTimeFromEcalCells_sums:
  "jetTimeFromEcalCells deltaR2 self jet ecalRecHits (w, e, n) =
     (let cells = qualifying_cells deltaR2 self jet ecalRecHits;
          W = w + sum_time_weight self cells; E = e + sum_weight self cells
      in (if E > 0 then W / E else W, E, n + length cells))"
  by (simp add: jetTimeFromEcalCells_def cells_loop_sums Let_def)

lemma qualifying_cells_append:
  "qualifying_cells deltaR2 self jet (xs @ ys) =
     qualifying_cells deltaR2 self jet xs @ qualifying_cells deltaR2 self jet ys"
  by (simp add: qualifying_cells_def)

lemma sum_weight_append: "sum_weight self (xs @ ys) = sum_weight self xs + sum_weight self ys"
  by (simp add: sum_weight_def)

lemma sum_time_weight_append:
  "sum_time_weight self (xs @ ys) = sum_time_weight self xs + sum_time_weight self ys"
  by (simp add: sum_time_weight_def)

lemma sum_weight_nonneg:
  "\<forall>c \<in> set cells. 0 \<le> cell_weight self c \<Longrightarrow> 0 \<le> sum_weight self cells"
  unfolding sum_weight_def by (rule sum_list_nonneg) auto

lemma sum_time_weight_zero:
  assumes "\<forall>c \<in> set cells. 0 \<le> cell_weight self c" and "sum_weight self cells = 0"
  shows "sum_time_weight self cells = 0"
proof -
  have "\<forall>x \<in> set (map (cell_weight self) cells). 0 \<le> x"
    using assms(1) by auto
  then have "\<forall>x \<in> set (map (cell_weight self) cells). x = 0"
    using assms(2) sum_list_nonneg_eq_0_iff [of "map (cell_weight self) cells"]
    unfolding sum_weight_def by blast
  then have "\<forall>c \<in> set cells. cell_weight self c = 0"
    by simp
  then show ?thesis
    by (induction cells) (auto simp: sum_time_weight_def cell_weight_def)
qed

lemma produce_jet_neither:
  "\<not> barrelJets self \<Longrightarrow> \<not> endcapJets self \<Longrightarrow>
   produce_jet deltaR2 self jet eb ee = (- 50, 0, 0)"
  by (simp add: produce_jet_def emit_def)

lemma produce_jet_barrel_only:
  "barrelJets self \<Longrightarrow> \<not> endcapJets self \<Longrightarrow>
   produce_jet deltaR2 self jet eb ee = weighted_mean_reference deltaR2 self jet eb"
  by (simp add: produce_jet_def emit_def jetTimeFromEcalCells_sums weighted_mean_reference_def
      Let_def)

lemma produce_jet_endcap_only:
  "\<not> barrelJets self \<Longrightarrow> endcapJets self \<Longrightarrow>
   produce_jet deltaR2 self jet eb ee = weighted_mean_reference deltaR2 self jet ee"
  by (simp add: produce_jet_def emit_def jetTimeFromEcalCells_sums weighted_mean_reference_def
      Let_def)

lemma single_scan_reference:
  "emit (jetTimeFromEcalCells deltaR2 self jet ecalRecHits (0, 0, 0)) =
     weighted_mean_reference deltaR2 self jet ecalRecHits"
  by (simp add: emit_def jetTimeFromEcalCells_sums weighted_mean_reference_def Let_def)

lemma produce_jet_both:
  "barrelJets self \<Longrightarrow> endcapJets self \<Longrightarrow>
   produce_jet deltaR2 self jet eb ee =
     (let B = qualifying_cells deltaR2 self jet eb; C = qualifying_cells deltaR2 self jet ee;
          Eb = sum_weight self B;
          W = (if Eb > 0 then sum_time_weight self B / Eb else sum_time_weight self B) * Eb
                + sum_time_weight self C;
          E = Eb + sum_weight self C
      in (if E > 0 then W / E else - 50, E, length B + length C))"
  by (simp add: produce_jet_def emit_def jetTimeFromEcalCells_sums Let_def)

lemma produce_jet_count:
  "snd (snd (produce_jet deltaR2 self jet eb ee)) =
     (if barrelJets self then length (qualifying_cells deltaR2 self jet eb) else 0) +
     (if endcapJets self then length (qualifying_cells deltaR2 self jet ee) else 0)"
  by (simp add: produce_jet_def emit_def jetTimeFromEcalCells_sums Let_def)

lemma produce_jet_no_cells:
  assumes "barrelJets self \<longrightarrow> qualifying_cells deltaR2 self jet eb = []"
    and "endcapJets self \<longrightarrow> qualifying_cells deltaR2 self jet ee = []"
  shows "produce_jet deltaR2 self jet eb ee = (- 50, 0, 0)"
  using assms
  by (simp add: produce_jet_def emit_def jetTimeFromEcalCells_sums Let_def
      sum_weight_def sum_time_weight_def)

lemma qualifying_cells_empty_iff:
  "qualifying_cells deltaR2 self jet cells = [] \<longleftrightarrow>
     (\<forall>c \<in> set cells. rejected deltaR2 self jet c)"
  by (auto simp: qualifying_cells_def filter_empty_conv)

lemma qualifying_cells_mset:
  "mset xs = mset ys \<Longrightarrow>
   mset (qualifying_cells deltaR2 self jet xs) = mset (qualifying_cells deltaR2 self jet ys)"
  by (simp add: qualifying_cells_def)

lemma sum_weight_mset: "mset xs = mset ys \<Longrightarrow> sum_weight self xs = sum_weight self ys"
proof -
  assume "mset xs = mset ys"
  then have "mset (map (cell_weight self) xs) = mset (map (cell_weight self) ys)"
    by simp
  then have "sum_mset (mset (map (cell_weight self) xs)) =
      sum_mset (mset (map (cell_weight self) ys))"
    by (rule arg_cong [of _ _ sum_mset])
  then show ?thesis
    by (simp only: sum_weight_def sum_mset_sum_list)
qed

lemma sum_time_weight_mset:
  assumes "mset xs = mset ys"
  shows "sum_time_weight self xs = sum_time_weight self ys"
proof -
  let ?f = "\<lambda>ecalRH. time ecalRH * energy ecalRH * sin (theta (pG self (detid ecalRH)))"
  have "mset (map ?f xs) = mset (map ?f ys)"
    using assms by simp
  then have "sum_mset (mset (map ?f xs)) = sum_mset (mset (map ?f ys))"
    by (rule arg_cong [of _ _ sum_mset])
  then show ?thesis
    by (simp only: sum_time_weight_def sum_mset_sum_list)
qed

lemma length_mset: "mset xs = mset ys \<Longrightarrow> length xs = length ys"
  by (rule mset_eq_length)

lemma produce_jet_permuted:
  assumes "mset eb' = mset eb" and "mset ee' = mset ee"
  shows "produce_jet deltaR2 self jet eb' ee' = produce_jet deltaR2 self jet eb ee"
proof -
  let ?q = "qualifying_cells deltaR2 self jet"
  have b: "mset (?q eb') = mset (?q eb)" and e: "mset (?q ee') = mset (?q ee)"
    by (rule qualifying_cells_mset [OF assms(1)], rule qualifying_cells_mset [OF assms(2)])
  have "sum_weight self (?q eb') = sum_weight self (?q eb)"
    "sum_time_weight self (?q eb') = sum_time_weight self (?q eb)"
    "length (?q eb') = length (?q eb)"
    "sum_weight self (?q ee') = sum_weight self (?q ee)"
    "sum_time_weight self (?q ee') = sum_time_weight self (?q ee)"
    "length (?q ee') = length (?q ee)"
    by (rule sum_weight_mset [OF b], rule sum_time_weight_mset [OF b], rule length_mset [OF b],
        rule sum_weight_mset [OF e], rule sum_time_weight_mset [OF e], rule length_mset [OF e])
  note eqs = this
  show ?thesis
    unfolding produce_jet_def jetTimeFromEcalCells_sums Let_def eqs by (rule refl)
qed

lemma set_qualifying_cells:
  "set (qualifying_cells deltaR2 self jet cells) =
     {c \<in> set cells. \<not> rejected deltaR2 self jet c}"
  by (simp add: qualifying_cells_def)

lemma nonneg_weights_of_threshold:
  assumes "0 \<le> ecalCellEnergyThresh self"
    and "\<forall>c \<in> set cells. 0 \<le> theta (pG self (detid c)) \<and> theta (pG self (detid c)) \<le> pi"
  shows "\<forall>c \<in> set cells. \<not> rejected deltaR2 self jet c \<longrightarrow>
           0 \<le> energy c * sin (theta (pG self (detid c)))"
proof (intro ballI impI)
  fix c
  assume c: "c \<in> set cells" and "\<not> rejected deltaR2 self jet c"
  then have "0 \<le> energy c"
    using assms(1) by (simp add: rejected_def)
  moreover have "0 \<le> sin (theta (pG self (detid c)))"
    using assms(2) c by (intro sin_ge_zero) simp_all
  ultimately show "0 \<le> energy c * sin (theta (pG self (detid c)))"
    by (rule mult_nonneg_nonneg)
qed

lemma sum_list_positive:
  fixes xs :: "real list"
  shows "xs \<noteq> [] \<Longrightarrow> \<forall>x \<in> set xs. 0 < x \<Longrightarrow> 0 < sum_list xs"
proof (induction xs)
  case Nil
  then show ?case by simp
next
  case (Cons x xs)
  then have "0 < x" and "0 \<le> sum_list xs"
    by (simp_all add: sum_list_nonneg less_imp_le)
  then show ?case by simp
qed

lemma sum_weight_pos:
  assumes "0 < ecalCellEnergyThresh self"
    and "\<forall>c \<in> set cells. 0 < theta (pG self (detid c)) \<and> theta (pG self (detid c)) < pi"
    and "qualifying_cells deltaR2 self jet cells \<noteq> []"
  shows "0 < sum_weight self (qualifying_cells deltaR2 self jet cells)"
proof -
  have "\<forall>c \<in> set (qualifying_cells deltaR2 self jet cells). 0 < cell_weight self c"
  proof
    fix c
    assume "c \<in> set (qualifying_cells deltaR2 self jet cells)"
    then have c: "c \<in> set cells" and "\<not> rejected deltaR2 self jet c"
      by (simp_all add: set_qualifying_cells)
    then have "0 < energy c"
      using assms(1) by (simp add: rejected_def)
    moreover have "0 < sin (theta (pG self (detid c)))"
      using assms(2) c by (intro sin_gt_zero) simp_all
    ultimately show "0 < cell_weight self c"
      by (simp add: cell_weight_def)
  qed
  then have "\<forall>x \<in> set (map (cell_weight self) (qualifying_cells deltaR2 self jet cells)). 0 < x"
    by simp
  moreover have "map (cell_weight self) (qualifying_cells deltaR2 self jet cells) \<noteq> []"
    using assms(3) by simp
  ultimately show ?thesis
    unfolding sum_weight_def by (intro sum_list_positive)
qed

lemma jetTimeFromEcalCells_permuted:
  assumes "mset hits' = mset hits"
  shows "jetTimeFromEcalCells deltaR2 self jet hits' acc =
         jetTimeFromEcalCells deltaR2 self jet hits acc"
proof -
  obtain w e n where acc: "acc = (w, e, n)"
    by (cases acc)
  have q: "mset (qualifying_cells deltaR2 self jet hits') =
      mset (qualifying_cells deltaR2 self jet hits)"
    by (rule qualifying_cells_mset [OF assms])
  have "sum_weight self (qualifying_cells deltaR2 self jet hits') =
      sum_weight self (qualifying_cells deltaR2 self jet hits)"
    "sum_time_weight self (qualifying_cells deltaR2 self jet hits') =
      sum_time_weight self (qualifying_cells deltaR2 self jet hits)"
    "length (qualifying_cells deltaR2 self jet hits') =
      length (qualifying_cells deltaR2 self jet hits)"
    by (rule sum_weight_mset [OF q], rule sum_time_weight_mset [OF q], rule length_mset [OF q])
  note eqs = this
  show ?thesis
    unfolding acc jetTimeFromEcalCells_sums Let_def eqs by (rule refl)
qed

lemma produce_timing_nth:
  assumes "i < length jets"
  shows "(case produce_timing deltaR2 self jets eb ee of
            (jetTimings, jetEcalEtForTiming, jetCellsForTiming) \<Rightarrow>
              (jetTimings ! i, jetEcalEtForTiming ! i, jetCellsForTiming ! i)) =
         produce_jet deltaR2 self (jets ! i) eb ee"
  using assms by (simp add: produce_timing_def Let_def)

lemmas example_simps =
  hit_def axis_def fillDescriptions_def central_geometry_def deltaR2_eta_phi_def
  rejected_def checkFlag_def cell_weight_def Let_def

lemma cells_loop_append:
  "cells_loop deltaR2 self jet (xs @ ys) acc =
     cells_loop deltaR2 self jet ys (cells_loop deltaR2 self jet xs acc)"
  by (induction xs arbitrary: acc) simp_all

lemma cell_step_fl_exact: "cell_step_fl (\<lambda>x. x) deltaR2 self jet ecalRH acc =
    cell_step deltaR2 self jet ecalRH acc"
  by (simp add: cell_step_fl_def cell_step_def)

lemma cells_loop_fl_exact: "cells_loop_fl (\<lambda>x. x) deltaR2 self jet ecalRecHits acc =
    cells_loop deltaR2 self jet ecalRecHits acc"
  by (induction ecalRecHits arbitrary: acc) (simp_all add: cell_step_fl_exact)

lemma jetTimeFromEcalCells_fl_exact:
  "jetTimeFromEcalCells_fl (\<lambda>x. x) deltaR2 self jet ecalRecHits acc =
    jetTimeFromEcalCells deltaR2 self jet ecalRecHits acc"
  by (simp add: jetTimeFromEcalCells_fl_def jetTimeFromEcalCells_def cells_loop_fl_exact)

lemma produce_jet_fl_exact:
  "produce_jet_fl (\<lambda>x. x) deltaR2 self jet eb ee = produce_jet deltaR2 self jet eb ee"
  by (simp add: produce_jet_fl_def produce_jet_def jetTimeFromEcalCells_fl_exact Let_def)

lemma cells_loop_fl_append:
  "cells_loop_fl fl deltaR2 self jet (xs @ ys) acc =
     cells_loop_fl fl deltaR2 self jet ys (cells_loop_fl fl deltaR2 self jet xs acc)"
  by (induction xs arbitrary: acc) simp_all

lemma cell_step_fl_snd:
  "snd (cell_step_fl fl deltaR2 self jet c (w, e, n)) =
   snd (cell_step_fl fl deltaR2 self jet c (w', e, n))"
  by (simp add: cell_step_fl_def Let_def)

lemma cells_loop_fl_snd:
  "snd (cells_loop_fl fl deltaR2 self jet cells (w, e, n)) =
   snd (cells_loop_fl fl deltaR2 self jet cells (w', e, n))"
proof (induction cells arbitrary: w w' e n)
  case Nil
  show ?case by simp
next
  case (Cons c cells)
  obtain a b k where s: "cell_step_fl fl deltaR2 self jet c (w, e, n) = (a, b, k)"
    by (cases "cell_step_fl fl deltaR2 self jet c (w, e, n)")
  obtain a' b' k' where s': "cell_step_fl fl deltaR2 self jet c (w', e, n) = (a', b', k')"
    by (cases "cell_step_fl fl deltaR2 self jet c (w', e, n)")
  have "(b, k) = (b', k')"
    using cell_step_fl_snd [of fl deltaR2 self jet c w e n w'] by (simp add: s s')
  then show ?case
    using Cons.IH [of a b k a'] by (simp add: s s')
qed

lemma jetTimeFromEcalCells_fl_snd:
  "snd (jetTimeFromEcalCells_fl fl deltaR2 self jet cells acc) =
   snd (cells_loop_fl fl deltaR2 self jet cells acc)"
  by (simp add: jetTimeFromEcalCells_fl_def split: prod.splits)

lemma snd_emit: "snd (emit acc) = snd acc"
  by (simp add: emit_def split: prod.splits)

lemma produce_jet_fl_energy_count:
  assumes "barrelJets self" and "endcapJets self"
  shows "snd (produce_jet_fl fl deltaR2 self jet eb ee) =
         snd (emit (jetTimeFromEcalCells_fl fl deltaR2 self jet (eb @ ee) (0, 0, 0)))"
proof -
  obtain w e n where b: "cells_loop_fl fl deltaR2 self jet eb (0, 0, 0) = (w, e, n)"
    by (cases "cells_loop_fl fl deltaR2 self jet eb (0, 0, 0)")
  let ?w1 = "if e > 0 then fl (w / e) else w"
  have "snd (produce_jet_fl fl deltaR2 self jet eb ee) =
      snd (cells_loop_fl fl deltaR2 self jet ee (fl (?w1 * e), e, n))"
    using assms
    by (simp add: produce_jet_fl_def snd_emit jetTimeFromEcalCells_fl_snd
        jetTimeFromEcalCells_fl_def [of fl deltaR2 self jet eb] b)
  also have "\<dots> = snd (cells_loop_fl fl deltaR2 self jet ee (w, e, n))"
    by (rule cells_loop_fl_snd)
  also have "\<dots> = snd (emit (jetTimeFromEcalCells_fl fl deltaR2 self jet (eb @ ee) (0, 0, 0)))"
    by (simp add: snd_emit jetTimeFromEcalCells_fl_snd cells_loop_fl_append b)
  finally show ?thesis .
qed

lemmas binary32_eval = binary32_def binary32_exponent_def rne_def Let_def eval_nat_numeral

lemma binary32_values:
  "binary32 0 = 0" "binary32 1 = 1" "binary32 7 = 7" "binary32 13 = 13" "binary32 16 = 16"
  "binary32 (1 / 10) = 13421773 / 134217728"
  "binary32 (7 / 13) = 4516943 / 8388608"
  "binary32 (58720259 / 8388608) = 14680065 / 2097152"
  "binary32 (14680065 / 2097152) = 14680065 / 2097152"
  "binary32 (14680065 / 33554432) = 14680065 / 33554432"
  "binary32 (7 / 16) = 7 / 16"
  by (simp_all add: binary32_eval)

lemma nonneg_weights_default:
  "\<forall>c \<in> set cells.
     \<not> rejected deltaR2 ((fillDescriptions central_geometry)\<lparr>barrelJets := b, endcapJets := e\<rparr>)
         jet c \<longrightarrow>
     0 \<le> energy c * sin (theta (pG ((fillDescriptions central_geometry)
                                     \<lparr>barrelJets := b, endcapJets := e\<rparr>) (detid c)))"
  by (rule nonneg_weights_of_threshold)
    (simp_all add: fillDescriptions_def central_geometry_def)

lemma ring_examples:
  "\<not> rejected deltaR2_eta_phi ((fillDescriptions ring_geometry)\<lparr>matchingRadius2 := 1 / 4\<rparr>)
      axis (hit 2 (1 / 2) 2 1 [])"
  "rejected deltaR2_eta_phi ((fillDescriptions ring_geometry)\<lparr>matchingRadius2 := 1 / 4\<rparr>)
      axis (hit 0 3 1 1 [kWeird])"
  "rejected deltaR2_eta_phi ((fillDescriptions ring_geometry)\<lparr>matchingRadius2 := 1 / 4\<rparr>)
      axis (hit 0 (1 / 4) 1 1 [])"
  "rejected deltaR2_eta_phi ((fillDescriptions ring_geometry)\<lparr>matchingRadius2 := 1 / 4\<rparr>)
      axis (hit 0 3 1 0 [])"
  "rejected deltaR2_eta_phi ((fillDescriptions ring_geometry)\<lparr>matchingRadius2 := 1 / 4\<rparr>)
      axis (hit 0 3 13 1 [])"
  "rejected deltaR2_eta_phi ((fillDescriptions ring_geometry)\<lparr>matchingRadius2 := 1 / 4\<rparr>)
      axis (hit 4 3 1 1 [])"
  "\<not> rejected deltaR2_eta_phi ((fillDescriptions ring_geometry)\<lparr>matchingRadius2 := 1 / 4\<rparr>)
      axis (hit 0 3 (- (25 / 2)) 100 [])"
  using pi_ge_two
  by (simp_all add: hit_def axis_def fillDescriptions_def ring_geometry_def deltaR2_eta_phi_def
      rejected_def checkFlag_def Let_def power2_eq_square)

section \<open>The timing producer: theorems\<close>

text \<open>
  C1, as the claim states it, fails on the \<^verbatim>\<open>float\<close> accumulators of the program:
  the barrel scan stores the rounded quotient, the driver stores the rounded product
  of that quotient and the energy sum, and the product is not the numerator the barrel
  scan had. Default configuration, barrel cells of energy 1 at time 7 and energy 12 at
  time 0, endcap cell of energy 3 at time 0: the barrel scan stores 7/13 rounded, the
  rescale gives \<open>7 + 2^-21\<close>, and the driver emits the time \<open>7/16 + 2^-25\<close>, where the
  single scan of the three cells emits 7/16.
\<close>

theorem merge_rounds_differently:
  "produce_jet_fl binary32 deltaR2_eta_phi
     ((fillDescriptions central_geometry)\<lparr>barrelJets := True, endcapJets := True\<rparr>)
     axis [hit 10 1 7 1 [], hit 11 12 0 1 []] [hit 20 3 0 1 []] = (14680065 / 33554432, 16, 3)
   \<and> emit (jetTimeFromEcalCells_fl binary32 deltaR2_eta_phi
       ((fillDescriptions central_geometry)\<lparr>barrelJets := True, endcapJets := True\<rparr>)
       axis ([hit 10 1 7 1 [], hit 11 12 0 1 []] @ [hit 20 3 0 1 []]) (0, 0, 0)) =
     (7 / 16, 16, 3)"
proof -
  let ?self = "(fillDescriptions central_geometry)\<lparr>barrelJets := True, endcapJets := True\<rparr>"
  have s: "\<And>d e t w a n. 1 / 2 \<le> e \<Longrightarrow> \<bar>t\<bar> \<le> 25 / 2 \<Longrightarrow>
      cell_step_fl binary32 deltaR2_eta_phi ?self axis (hit d e t 1 []) (w, a, n) =
        (binary32 (w + t * e), binary32 (a + e), Suc n)"
    by (simp add: cell_step_fl_def example_simps)
  have b: "cells_loop_fl binary32 deltaR2_eta_phi ?self axis
      [hit 10 1 7 1 [], hit 11 12 0 1 []] (0, 0, 0) = (7, 13, 2)"
    by (simp add: s binary32_values)
  have e: "\<And>w. cells_loop_fl binary32 deltaR2_eta_phi ?self axis [hit 20 3 0 1 []] (w, 13, 2) =
      (binary32 w, 16, 3)"
    by (simp add: s binary32_values)
  have f: "barrelJets ?self" "endcapJets ?self"
    by (simp_all add: fillDescriptions_def)
  have j1: "jetTimeFromEcalCells_fl binary32 deltaR2_eta_phi ?self axis
      [hit 10 1 7 1 [], hit 11 12 0 1 []] (0, 0, 0) = (4516943 / 8388608, 13, 2)"
    by (simp only: jetTimeFromEcalCells_fl_def b) (simp add: binary32_values)
  have j2: "jetTimeFromEcalCells_fl binary32 deltaR2_eta_phi ?self axis [hit 20 3 0 1 []]
      (binary32 (4516943 / 8388608 * 13), 13, 2) = (14680065 / 33554432, 16, 3)"
    by (simp only: jetTimeFromEcalCells_fl_def e) (simp add: binary32_values)
  have j3: "jetTimeFromEcalCells_fl binary32 deltaR2_eta_phi ?self axis
      ([hit 10 1 7 1 [], hit 11 12 0 1 []] @ [hit 20 3 0 1 []]) (0, 0, 0) = (7 / 16, 16, 3)"
    by (simp only: jetTimeFromEcalCells_fl_def cells_loop_fl_append b e)
      (simp add: binary32_values)
  have "produce_jet_fl binary32 deltaR2_eta_phi ?self axis
      [hit 10 1 7 1 [], hit 11 12 0 1 []] [hit 20 3 0 1 []] = (14680065 / 33554432, 16, 3)"
    by (simp only: produce_jet_fl_def Let_def f if_True j1 prod.case j2) (simp add: emit_def)
  moreover have "emit (jetTimeFromEcalCells_fl binary32 deltaR2_eta_phi ?self axis
      ([hit 10 1 7 1 [], hit 11 12 0 1 []] @ [hit 20 3 0 1 []]) (0, 0, 0)) = (7 / 16, 16, 3)"
    by (simp only: j3) (simp add: emit_def)
  ultimately show ?thesis by blast
qed

text \<open>
  C1, amended: in exact arithmetic, when no qualifying barrel cell has a negative weight
  (energy times the sine of the polar angle), as is the case whenever the energy
  threshold is not negative and the polar angles lie between 0 and \<open>\<pi>\<close>, the driver
  run with both regions enabled emits the triple of a single scan of the barrel hits
  followed by the endcap hits, which is the weighted mean, the total weight and the
  count of the qualifying cells of the two collections together. With rounded
  accumulators, whatever the rounding, the energy sum and the count of the two still
  agree.
\<close>

theorem barrel_endcap_merge:
  assumes "barrelJets self" and "endcapJets self"
  shows "((\<forall>c \<in> set eb. \<not> rejected deltaR2 self jet c \<longrightarrow>
             0 \<le> energy c * sin (theta (pG self (detid c)))) \<longrightarrow>
          produce_jet_fl (\<lambda>x. x) deltaR2 self jet eb ee =
            emit (jetTimeFromEcalCells_fl (\<lambda>x. x) deltaR2 self jet (eb @ ee) (0, 0, 0)) \<and>
          produce_jet deltaR2 self jet eb ee =
            emit (jetTimeFromEcalCells deltaR2 self jet (eb @ ee) (0, 0, 0)) \<and>
          produce_jet deltaR2 self jet eb ee =
            weighted_mean_reference deltaR2 self jet (eb @ ee))
         \<and> snd (produce_jet_fl fl deltaR2 self jet eb ee) =
             snd (emit (jetTimeFromEcalCells_fl fl deltaR2 self jet (eb @ ee) (0, 0, 0)))"
proof (intro conjI impI)
  assume nonneg: "\<forall>c \<in> set eb. \<not> rejected deltaR2 self jet c \<longrightarrow>
             0 \<le> energy c * sin (theta (pG self (detid c)))"
  let ?B = "qualifying_cells deltaR2 self jet eb"
  have w: "\<forall>c \<in> set ?B. 0 \<le> cell_weight self c"
    using nonneg by (simp add: set_qualifying_cells cell_weight_def)
  show r: "produce_jet deltaR2 self jet eb ee =
      weighted_mean_reference deltaR2 self jet (eb @ ee)"
  proof (cases "sum_weight self ?B > 0")
    case True
    then show ?thesis
      unfolding produce_jet_both [OF assms] weighted_mean_reference_def Let_def
      by (simp add: qualifying_cells_append sum_weight_append sum_time_weight_append)
  next
    case False
    then have z: "sum_weight self ?B = 0"
      using sum_weight_nonneg [OF w] by simp
    then have "sum_time_weight self ?B = 0"
      using sum_time_weight_zero [OF w] by simp
    with z show ?thesis
      unfolding produce_jet_both [OF assms] weighted_mean_reference_def Let_def
      by (simp add: qualifying_cells_append sum_weight_append sum_time_weight_append)
  qed
  then show e: "produce_jet deltaR2 self jet eb ee =
      emit (jetTimeFromEcalCells deltaR2 self jet (eb @ ee) (0, 0, 0))"
    by (simp add: single_scan_reference)
  then show "produce_jet_fl (\<lambda>x. x) deltaR2 self jet eb ee =
      emit (jetTimeFromEcalCells_fl (\<lambda>x. x) deltaR2 self jet (eb @ ee) (0, 0, 0))"
    by (simp only: produce_jet_fl_exact jetTimeFromEcalCells_fl_exact)
next
  show "snd (produce_jet_fl fl deltaR2 self jet eb ee) =
      snd (emit (jetTimeFromEcalCells_fl fl deltaR2 self jet (eb @ ee) (0, 0, 0)))"
    by (rule produce_jet_fl_energy_count [OF assms])
qed

theorem barrel_endcap_merge_witness:
  "produce_jet deltaR2_eta_phi
     ((fillDescriptions central_geometry)\<lparr>barrelJets := True, endcapJets := True\<rparr>)
     axis [hit 10 1 7 1 [], hit 11 12 0 1 [], hit 12 9 2 1 [kWeird]] [hit 20 3 0 1 []] =
     (7 / 16, 16, 3)
   \<and> emit (jetTimeFromEcalCells deltaR2_eta_phi
       ((fillDescriptions central_geometry)\<lparr>barrelJets := True, endcapJets := True\<rparr>)
       axis ([hit 10 1 7 1 [], hit 11 12 0 1 [], hit 12 9 2 1 [kWeird]] @ [hit 20 3 0 1 []])
       (0, 0, 0)) = (7 / 16, 16, 3)
   \<and> jetTimeFromEcalCells deltaR2_eta_phi
       ((fillDescriptions central_geometry)\<lparr>barrelJets := True, endcapJets := True\<rparr>)
       axis [hit 10 1 7 1 [], hit 11 12 0 1 [], hit 12 9 2 1 [kWeird]] (0, 0, 0) =
     (7 / 13, 13, 2)"
proof -
  let ?self = "(fillDescriptions central_geometry)\<lparr>barrelJets := True, endcapJets := True\<rparr>"
  let ?eb = "[hit 10 1 7 1 [], hit 11 12 0 1 [], hit 12 9 2 1 [kWeird]]"
  have f: "barrelJets ?self" "endcapJets ?self"
    by (simp_all add: fillDescriptions_def)
  have w: "\<forall>c \<in> set ?eb. \<not> rejected deltaR2_eta_phi ?self axis c \<longrightarrow>
        0 \<le> energy c * sin (theta (pG ?self (detid c)))"
    by (rule nonneg_weights_default)
  have q: "qualifying_cells deltaR2_eta_phi ?self axis
      [hit 10 1 7 1 [], hit 11 12 0 1 [], hit 12 9 2 1 [kWeird], hit 20 3 0 1 []] =
      [hit 10 1 7 1 [], hit 11 12 0 1 [], hit 20 3 0 1 []]"
    and qb: "qualifying_cells deltaR2_eta_phi ?self axis ?eb =
      [hit 10 1 7 1 [], hit 11 12 0 1 []]"
    by (simp_all add: qualifying_cells_def example_simps)
  have r: "weighted_mean_reference deltaR2_eta_phi ?self axis
      (?eb @ [hit 20 3 0 1 []]) = (7 / 16, 16, 3)"
    unfolding weighted_mean_reference_def append.simps q
    by (simp add: Let_def sum_weight_def sum_time_weight_def)
      (simp add: hit_def cell_weight_def fillDescriptions_def central_geometry_def)
  have b: "jetTimeFromEcalCells deltaR2_eta_phi ?self axis ?eb (0, 0, 0) = (7 / 13, 13, 2)"
    unfolding jetTimeFromEcalCells_sums qb
    by (simp add: Let_def sum_weight_def sum_time_weight_def)
      (simp add: hit_def cell_weight_def fillDescriptions_def central_geometry_def)
  show ?thesis
    using r b w barrel_endcap_merge [OF f, of ?eb deltaR2_eta_phi axis "[hit 20 3 0 1 []]"]
    by metis
qed

text \<open>
  C2, as the claim states it, fails: with the energy threshold at 0 a single cell of
  energy 0 passes every per-cell predicate; the sum of the weights is 0, there is no
  quotient to emit, and the producer emits the sentinel.
\<close>

theorem qualifying_cell_without_mean:
  "qualifying_cells deltaR2_eta_phi
     ((fillDescriptions central_geometry)\<lparr>barrelJets := True, ecalCellEnergyThresh := 0\<rparr>)
     axis [hit 10 0 1 1 []] = [hit 10 0 1 1 []]
   \<and> sum_weight
       ((fillDescriptions central_geometry)\<lparr>barrelJets := True, ecalCellEnergyThresh := 0\<rparr>)
       [hit 10 0 1 1 []] = 0
   \<and> produce_jet deltaR2_eta_phi
       ((fillDescriptions central_geometry)\<lparr>barrelJets := True, ecalCellEnergyThresh := 0\<rparr>)
       axis [hit 10 0 1 1 []] [] = (- 50, 0, 1)
   \<and> fst (produce_jet deltaR2_eta_phi
       ((fillDescriptions central_geometry)\<lparr>barrelJets := True, ecalCellEnergyThresh := 0\<rparr>)
       axis [hit 10 0 1 1 []] []) \<noteq>
     sum_time_weight
       ((fillDescriptions central_geometry)\<lparr>barrelJets := True, ecalCellEnergyThresh := 0\<rparr>)
       [hit 10 0 1 1 []] /
     sum_weight
       ((fillDescriptions central_geometry)\<lparr>barrelJets := True, ecalCellEnergyThresh := 0\<rparr>)
       [hit 10 0 1 1 []]"
proof -
  let ?self = "(fillDescriptions central_geometry)
      \<lparr>barrelJets := True, ecalCellEnergyThresh := 0\<rparr>"
  have q: "qualifying_cells deltaR2_eta_phi ?self axis [hit 10 0 1 1 []] = [hit 10 0 1 1 []]"
    by (simp add: qualifying_cells_def example_simps)
  have s: "sum_time_weight ?self [hit 10 0 1 1 []] = 0" "sum_weight ?self [hit 10 0 1 1 []] = 0"
    by (simp_all add: sum_time_weight_def sum_weight_def hit_def cell_weight_def)
  have f: "barrelJets ?self" "\<not> endcapJets ?self"
    by (simp_all add: fillDescriptions_def)
  have "produce_jet deltaR2_eta_phi ?self axis [hit 10 0 1 1 []] [] = (- 50, 0, 1)"
    unfolding produce_jet_barrel_only [OF f] weighted_mean_reference_def q Let_def s
    by simp
  with q s show ?thesis by simp
qed

text \<open>
  C2, amended: when the total weight of the qualifying cells of a hit collection (the
  sum of energy times the sine of the polar angle) is positive, the time emitted for a
  scan of that collection, by the function alone or by the driver with that region
  alone enabled, is the sum of time times energy times sine over the qualifying cells
  divided by their total weight; and the emitted triple is the same for every
  rearrangement of the hit collections, whatever the configuration. The total weight
  is positive as soon as a cell qualifies, the energy threshold is positive and the
  polar angles lie strictly between 0 and \<open>\<pi>\<close>.
\<close>

theorem weighted_mean_of_qualifying_cells:
  "(0 < sum_weight self (qualifying_cells deltaR2 self jet hits) \<longrightarrow>
      fst (emit (jetTimeFromEcalCells deltaR2 self jet hits (0, 0, 0))) =
        sum_time_weight self (qualifying_cells deltaR2 self jet hits) /
        sum_weight self (qualifying_cells deltaR2 self jet hits))
   \<and> (0 < sum_weight self (qualifying_cells deltaR2 self jet hits) \<longrightarrow>
      barrelJets self \<longrightarrow> \<not> endcapJets self \<longrightarrow>
      fst (produce_jet deltaR2 self jet hits ee) =
        sum_time_weight self (qualifying_cells deltaR2 self jet hits) /
        sum_weight self (qualifying_cells deltaR2 self jet hits))
   \<and> (0 < sum_weight self (qualifying_cells deltaR2 self jet hits) \<longrightarrow>
      \<not> barrelJets self \<longrightarrow> endcapJets self \<longrightarrow>
      fst (produce_jet deltaR2 self jet eb hits) =
        sum_time_weight self (qualifying_cells deltaR2 self jet hits) /
        sum_weight self (qualifying_cells deltaR2 self jet hits))
   \<and> (mset hits' = mset hits \<longrightarrow>
        emit (jetTimeFromEcalCells deltaR2 self jet hits' (0, 0, 0)) =
        emit (jetTimeFromEcalCells deltaR2 self jet hits (0, 0, 0)))
   \<and> (mset eb' = mset eb \<longrightarrow> mset ee' = mset ee \<longrightarrow>
        produce_jet deltaR2 self jet eb' ee' = produce_jet deltaR2 self jet eb ee)"
proof (intro conjI impI)
  assume pos: "0 < sum_weight self (qualifying_cells deltaR2 self jet hits)"
  then show "fst (emit (jetTimeFromEcalCells deltaR2 self jet hits (0, 0, 0))) =
        sum_time_weight self (qualifying_cells deltaR2 self jet hits) /
        sum_weight self (qualifying_cells deltaR2 self jet hits)"
    by (simp add: single_scan_reference weighted_mean_reference_def Let_def)
next
  assume "0 < sum_weight self (qualifying_cells deltaR2 self jet hits)"
    and "barrelJets self" and "\<not> endcapJets self"
  then show "fst (produce_jet deltaR2 self jet hits ee) =
        sum_time_weight self (qualifying_cells deltaR2 self jet hits) /
        sum_weight self (qualifying_cells deltaR2 self jet hits)"
    by (simp add: produce_jet_barrel_only weighted_mean_reference_def Let_def)
next
  assume "0 < sum_weight self (qualifying_cells deltaR2 self jet hits)"
    and "\<not> barrelJets self" and "endcapJets self"
  then show "fst (produce_jet deltaR2 self jet eb hits) =
        sum_time_weight self (qualifying_cells deltaR2 self jet hits) /
        sum_weight self (qualifying_cells deltaR2 self jet hits)"
    by (simp add: produce_jet_endcap_only weighted_mean_reference_def Let_def)
next
  assume "mset hits' = mset hits"
  then have "jetTimeFromEcalCells deltaR2 self jet hits' (0, 0, 0) =
        jetTimeFromEcalCells deltaR2 self jet hits (0, 0, 0)"
    by (rule jetTimeFromEcalCells_permuted)
  then show "emit (jetTimeFromEcalCells deltaR2 self jet hits' (0, 0, 0)) =
        emit (jetTimeFromEcalCells deltaR2 self jet hits (0, 0, 0))"
    by (rule arg_cong [of _ _ emit])
next
  assume "mset eb' = mset eb" and "mset ee' = mset ee"
  then show "produce_jet deltaR2 self jet eb' ee' = produce_jet deltaR2 self jet eb ee"
    by (rule produce_jet_permuted)
qed

theorem weighted_mean_of_qualifying_cells_witness:
  "fst (produce_jet deltaR2_eta_phi ((fillDescriptions central_geometry)\<lparr>barrelJets := True\<rparr>)
     axis [hit 10 1 2 1 [], hit 11 9 2 1 [kWeird], hit 12 3 4 1 []] []) = 14 / 4
   \<and> produce_jet deltaR2_eta_phi ((fillDescriptions central_geometry)\<lparr>barrelJets := True\<rparr>)
       axis [hit 12 3 4 1 [], hit 10 1 2 1 [], hit 11 9 2 1 [kWeird]] [] =
     produce_jet deltaR2_eta_phi ((fillDescriptions central_geometry)\<lparr>barrelJets := True\<rparr>)
       axis [hit 10 1 2 1 [], hit 11 9 2 1 [kWeird], hit 12 3 4 1 []] []"
proof -
  let ?self = "(fillDescriptions central_geometry)\<lparr>barrelJets := True\<rparr>"
  let ?eb = "[hit 10 1 2 1 [], hit 11 9 2 1 [kWeird], hit 12 3 4 1 []]"
  let ?eb' = "[hit 12 3 4 1 [], hit 10 1 2 1 [], hit 11 9 2 1 [kWeird]]"
  note inst = weighted_mean_of_qualifying_cells
    [of ?self deltaR2_eta_phi axis ?eb "[]" ?eb ?eb' ?eb' "[]"]
  have f: "barrelJets ?self" "\<not> endcapJets ?self"
    by (simp_all add: fillDescriptions_def)
  have q: "qualifying_cells deltaR2_eta_phi ?self axis ?eb = [hit 10 1 2 1 [], hit 12 3 4 1 []]"
    by (simp add: qualifying_cells_def example_simps)
  have s: "sum_time_weight ?self [hit 10 1 2 1 [], hit 12 3 4 1 []] = 14"
    "sum_weight ?self [hit 10 1 2 1 [], hit 12 3 4 1 []] = 4"
    by (simp_all add: sum_time_weight_def sum_weight_def hit_def cell_weight_def
        fillDescriptions_def central_geometry_def)
  have p: "mset ?eb' = mset ?eb" "mset ([] :: EcalRecHit list) = mset []"
    by simp_all
  have "0 < ecalCellEnergyThresh ?self"
    by (simp add: fillDescriptions_def)
  moreover have "\<forall>c \<in> set ?eb.
      0 < theta (pG ?self (detid c)) \<and> theta (pG ?self (detid c)) < pi"
    by (simp add: fillDescriptions_def central_geometry_def)
  moreover have "qualifying_cells deltaR2_eta_phi ?self axis ?eb \<noteq> []"
    by (simp add: q)
  ultimately have pos: "0 < sum_weight ?self (qualifying_cells deltaR2_eta_phi ?self axis ?eb)"
    by (rule sum_weight_pos)
  have "fst (produce_jet deltaR2_eta_phi ?self axis ?eb []) =
      sum_time_weight ?self (qualifying_cells deltaR2_eta_phi ?self axis ?eb) /
      sum_weight ?self (qualifying_cells deltaR2_eta_phi ?self axis ?eb)"
    using inst pos f by blast
  then have "fst (produce_jet deltaR2_eta_phi ?self axis ?eb []) = 14 / 4"
    by (simp only: q s)
  moreover have "produce_jet deltaR2_eta_phi ?self axis ?eb' [] =
      produce_jet deltaR2_eta_phi ?self axis ?eb []"
    using inst p by blast
  ultimately show ?thesis by blast
qed

text \<open>
  C4: a scan of a hit collection adds to the accumulators the contributions of exactly
  the cells of the collection that are not rejected in the sense of the specification:
  the scan visits the cells in order, a rejected cell leaves the three accumulators as
  they are, and a cell that is not rejected adds its time times energy times sine to
  the first, its energy times sine to the second and one to the third. The comparisons
  with the thresholds are strict where the specification says so, so a cell exactly at
  the energy threshold, at the time threshold, at the uncertainty threshold or at the
  matching radius is accepted.
\<close>

theorem cells_contribute_iff_not_rejected:
  "cells_loop deltaR2 self jet ecalRecHits (w, e, n) =
     (w + (\<Sum>c\<leftarrow>filter (\<lambda>c. \<not> rejected deltaR2 self jet c) ecalRecHits.
             time c * energy c * sin (theta (pG self (detid c)))),
      e + (\<Sum>c\<leftarrow>filter (\<lambda>c. \<not> rejected deltaR2 self jet c) ecalRecHits.
             energy c * sin (theta (pG self (detid c)))),
      n + length (filter (\<lambda>c. \<not> rejected deltaR2 self jet c) ecalRecHits))
   \<and> jetTimeFromEcalCells deltaR2 self jet ecalRecHits (w, e, n) =
       (let W = w + (\<Sum>c\<leftarrow>filter (\<lambda>c. \<not> rejected deltaR2 self jet c) ecalRecHits.
                       time c * energy c * sin (theta (pG self (detid c))));
            E = e + (\<Sum>c\<leftarrow>filter (\<lambda>c. \<not> rejected deltaR2 self jet c) ecalRecHits.
                       energy c * sin (theta (pG self (detid c))))
        in (if E > 0 then W / E else W, E,
            n + length (filter (\<lambda>c. \<not> rejected deltaR2 self jet c) ecalRecHits)))
   \<and> cells_loop deltaR2 self jet (earlier @ ecalRH # later) acc =
       cells_loop deltaR2 self jet later
         (cell_step deltaR2 self jet ecalRH (cells_loop deltaR2 self jet earlier acc))
   \<and> cell_step deltaR2 self jet ecalRH (w, e, n) =
       (if rejected deltaR2 self jet ecalRH then (w, e, n)
        else (w + time ecalRH * energy ecalRH * sin (theta (pG self (detid ecalRH))),
              e + energy ecalRH * sin (theta (pG self (detid ecalRH))), n + 1))
   \<and> (cell_step deltaR2 self jet ecalRH (w, e, n) \<noteq> (w, e, n) \<longleftrightarrow>
        \<not> rejected deltaR2 self jet ecalRH)"
proof (intro conjI)
  show "jetTimeFromEcalCells deltaR2 self jet ecalRecHits (w, e, n) =
       (let W = w + (\<Sum>c\<leftarrow>filter (\<lambda>c. \<not> rejected deltaR2 self jet c) ecalRecHits.
                       time c * energy c * sin (theta (pG self (detid c))));
            E = e + (\<Sum>c\<leftarrow>filter (\<lambda>c. \<not> rejected deltaR2 self jet c) ecalRecHits.
                       energy c * sin (theta (pG self (detid c))))
        in (if E > 0 then W / E else W, E,
            n + length (filter (\<lambda>c. \<not> rejected deltaR2 self jet c) ecalRecHits)))"
    by (simp add: jetTimeFromEcalCells_sums qualifying_cells_def sum_time_weight_def
        sum_weight_def cell_weight_def Let_def)
  show "cells_loop deltaR2 self jet ecalRecHits (w, e, n) =
     (w + (\<Sum>c\<leftarrow>filter (\<lambda>c. \<not> rejected deltaR2 self jet c) ecalRecHits.
             time c * energy c * sin (theta (pG self (detid c)))),
      e + (\<Sum>c\<leftarrow>filter (\<lambda>c. \<not> rejected deltaR2 self jet c) ecalRecHits.
             energy c * sin (theta (pG self (detid c)))),
      n + length (filter (\<lambda>c. \<not> rejected deltaR2 self jet c) ecalRecHits))"
    by (simp add: cells_loop_sums qualifying_cells_def sum_time_weight_def sum_weight_def
        cell_weight_def)
  show "cells_loop deltaR2 self jet (earlier @ ecalRH # later) acc =
       cells_loop deltaR2 self jet later
         (cell_step deltaR2 self jet ecalRH (cells_loop deltaR2 self jet earlier acc))"
    by (simp add: cells_loop_append)
  show "cell_step deltaR2 self jet ecalRH (w, e, n) =
       (if rejected deltaR2 self jet ecalRH then (w, e, n)
        else (w + time ecalRH * energy ecalRH * sin (theta (pG self (detid ecalRH))),
              e + energy ecalRH * sin (theta (pG self (detid ecalRH))), n + 1))"
    by (simp add: cell_step_rejected cell_step_accepted cell_weight_def)
  show "cell_step deltaR2 self jet ecalRH (w, e, n) \<noteq> (w, e, n) \<longleftrightarrow>
        \<not> rejected deltaR2 self jet ecalRH"
    by (cases "rejected deltaR2 self jet ecalRH")
      (simp_all add: cell_step_rejected cell_step_accepted)
qed

theorem cells_contribute_iff_not_rejected_witness:
  "cells_loop deltaR2_eta_phi ((fillDescriptions ring_geometry)\<lparr>matchingRadius2 := 1 / 4\<rparr>) axis
     [hit 2 (1 / 2) 2 1 [], hit 0 3 1 1 [kWeird], hit 0 (1 / 4) 1 1 [], hit 0 3 1 0 [],
      hit 0 3 13 1 [], hit 4 3 1 1 [], hit 0 3 (- (25 / 2)) 100 []] (0, 0, 0) =
     (- 73 / 2, 7 / 2, 2)
   \<and> jetTimeFromEcalCells deltaR2_eta_phi
       ((fillDescriptions ring_geometry)\<lparr>matchingRadius2 := 1 / 4\<rparr>) axis
     [hit 2 (1 / 2) 2 1 [], hit 0 3 1 1 [kWeird], hit 0 (1 / 4) 1 1 [], hit 0 3 1 0 [],
      hit 0 3 13 1 [], hit 4 3 1 1 [], hit 0 3 (- (25 / 2)) 100 []] (0, 0, 0) =
     (- 73 / 7, 7 / 2, 2)"
proof -
  let ?self = "(fillDescriptions ring_geometry)\<lparr>matchingRadius2 := 1 / 4\<rparr>"
  let ?hits = "[hit 2 (1 / 2) 2 1 [], hit 0 3 1 1 [kWeird], hit 0 (1 / 4) 1 1 [], hit 0 3 1 0 [],
      hit 0 3 13 1 [], hit 4 3 1 1 [], hit 0 3 (- (25 / 2)) 100 []]"
  let ?kept = "[hit 2 (1 / 2) 2 1 [], hit 0 3 (- (25 / 2)) 100 []]"
  note inst = cells_contribute_iff_not_rejected [of deltaR2_eta_phi ?self axis ?hits 0 0 0]
  have q: "filter (\<lambda>c. \<not> rejected deltaR2_eta_phi ?self axis c) ?hits = ?kept"
    by (simp add: ring_examples)
  have s: "(\<Sum>c\<leftarrow>?kept. time c * energy c * sin (theta (pG ?self (detid c)))) = - 73 / 2"
    "(\<Sum>c\<leftarrow>?kept. energy c * sin (theta (pG ?self (detid c)))) = 7 / 2"
    "length ?kept = 2"
    by (simp_all add: hit_def fillDescriptions_def ring_geometry_def)
  have "cells_loop deltaR2_eta_phi ?self axis ?hits (0, 0, 0) =
     (0 + (\<Sum>c\<leftarrow>?kept. time c * energy c * sin (theta (pG ?self (detid c)))),
      0 + (\<Sum>c\<leftarrow>?kept. energy c * sin (theta (pG ?self (detid c)))),
      0 + length ?kept)"
    using inst by (simp only: q)
  then have a: "cells_loop deltaR2_eta_phi ?self axis ?hits (0, 0, 0) = (- 73 / 2, 7 / 2, 2)"
    by (simp only: s) simp
  have "jetTimeFromEcalCells deltaR2_eta_phi ?self axis ?hits (0, 0, 0) =
     (let W = 0 + (\<Sum>c\<leftarrow>?kept. time c * energy c * sin (theta (pG ?self (detid c))));
          E = 0 + (\<Sum>c\<leftarrow>?kept. energy c * sin (theta (pG ?self (detid c))))
      in (if E > 0 then W / E else W, E, 0 + length ?kept))"
    using inst by (simp only: q)
  then have b: "jetTimeFromEcalCells deltaR2_eta_phi ?self axis ?hits (0, 0, 0) =
      (- 73 / 7, 7 / 2, 2)"
    by (simp only: s) (simp add: Let_def)
  from a b show ?thesis by blast
qed

text \<open>
  C7: when no cell of an enabled region passes the per-cell predicates, the per-jet
  result is the sentinel time -50 with energy sum 0 and count 0; and whenever the count
  of a per-jet result is 0, its energy sum is 0 and its time is -50.
\<close>

theorem no_qualifying_cell_sentinel:
  "(((barrelJets self \<longrightarrow> (\<forall>c \<in> set eb. rejected deltaR2 self jet c)) \<and>
     (endcapJets self \<longrightarrow> (\<forall>c \<in> set ee. rejected deltaR2 self jet c))) \<longrightarrow>
      produce_jet deltaR2 self jet eb ee = (- 50, 0, 0))
   \<and> (snd (snd (produce_jet deltaR2 self jet eb ee)) = 0 \<longrightarrow>
        produce_jet deltaR2 self jet eb ee = (- 50, 0, 0))"
proof (intro conjI impI)
  assume "(barrelJets self \<longrightarrow> (\<forall>c \<in> set eb. rejected deltaR2 self jet c)) \<and>
     (endcapJets self \<longrightarrow> (\<forall>c \<in> set ee. rejected deltaR2 self jet c))"
  then show "produce_jet deltaR2 self jet eb ee = (- 50, 0, 0)"
    by (intro produce_jet_no_cells) (simp_all add: qualifying_cells_empty_iff)
next
  assume "snd (snd (produce_jet deltaR2 self jet eb ee)) = 0"
  then show "produce_jet deltaR2 self jet eb ee = (- 50, 0, 0)"
    by (intro produce_jet_no_cells) (simp_all add: produce_jet_count split: if_splits)
qed

theorem no_qualifying_cell_sentinel_witness:
  "produce_jet deltaR2_eta_phi
     ((fillDescriptions central_geometry)\<lparr>barrelJets := True, endcapJets := True\<rparr>) axis
     [hit 0 3 1 1 [kWeird], hit 5 0.2 1 1 []] [hit 2 3 20 1 [], hit 3 3 1 0 []] = (- 50, 0, 0)
   \<and> snd (snd (produce_jet deltaR2_eta_phi
     ((fillDescriptions central_geometry)\<lparr>barrelJets := True, endcapJets := True\<rparr>) axis
     [hit 0 3 1 1 [kWeird], hit 5 0.2 1 1 []] [hit 2 3 20 1 [], hit 3 3 1 0 []])) = 0"
proof -
  let ?self = "(fillDescriptions central_geometry)\<lparr>barrelJets := True, endcapJets := True\<rparr>"
  have b: "\<forall>c \<in> set [hit 0 3 1 1 [kWeird], hit 5 0.2 1 1 []]. rejected deltaR2_eta_phi ?self axis c"
    by (simp add: example_simps)
  have e: "\<forall>c \<in> set [hit 2 3 20 1 [], hit 3 3 1 0 []]. rejected deltaR2_eta_phi ?self axis c"
    by (simp add: example_simps)
  have "(barrelJets ?self \<longrightarrow>
          (\<forall>c \<in> set [hit 0 3 1 1 [kWeird], hit 5 0.2 1 1 []]. rejected deltaR2_eta_phi ?self axis c)) \<and>
        (endcapJets ?self \<longrightarrow>
          (\<forall>c \<in> set [hit 2 3 20 1 [], hit 3 3 1 0 []]. rejected deltaR2_eta_phi ?self axis c))"
    using b e by blast
  then have "produce_jet deltaR2_eta_phi ?self axis
      [hit 0 3 1 1 [kWeird], hit 5 0.2 1 1 []] [hit 2 3 20 1 [], hit 3 3 1 0 []] = (- 50, 0, 0)"
    using no_qualifying_cell_sentinel [of ?self "[hit 0 3 1 1 [kWeird], hit 5 0.2 1 1 []]"
      deltaR2_eta_phi axis "[hit 2 3 20 1 [], hit 3 3 1 0 []]"]
    by blast
  then show ?thesis by simp
qed

text \<open>
  C10: with the barrel region disabled and the endcap region enabled, the per-jet
  result is that of a single scan of the endcap hits from zero accumulators, whatever
  the barrel collection holds.
\<close>

theorem endcap_only_is_single_scan:
  assumes "\<not> barrelJets self" and "endcapJets self"
  shows "produce_jet deltaR2 self jet eb ee =
           emit (jetTimeFromEcalCells deltaR2 self jet ee (0, 0, 0))
         \<and> produce_jet deltaR2 self jet eb ee = weighted_mean_reference deltaR2 self jet ee"
  using assms by (simp add: single_scan_reference produce_jet_endcap_only)

theorem endcap_only_is_single_scan_witness:
  "produce_jet deltaR2_eta_phi ((fillDescriptions central_geometry)\<lparr>endcapJets := True\<rparr>) axis
     [hit 0 3 1 1 []] [hit 5 1 2 1 [], hit 2 3 4 1 []] = (3.5, 4, 2)
   \<and> emit (jetTimeFromEcalCells deltaR2_eta_phi
        ((fillDescriptions central_geometry)\<lparr>endcapJets := True\<rparr>) axis
        [hit 5 1 2 1 [], hit 2 3 4 1 []] (0, 0, 0)) = (3.5, 4, 2)"
proof -
  let ?self = "(fillDescriptions central_geometry)\<lparr>endcapJets := True\<rparr>"
  have f: "\<not> barrelJets ?self" "endcapJets ?self"
    by (simp_all add: fillDescriptions_def)
  have q: "qualifying_cells deltaR2_eta_phi ?self axis [hit 5 1 2 1 [], hit 2 3 4 1 []] =
      [hit 5 1 2 1 [], hit 2 3 4 1 []]"
    by (simp add: qualifying_cells_def example_simps power2_eq_square)
  have "weighted_mean_reference deltaR2_eta_phi ?self axis [hit 5 1 2 1 [], hit 2 3 4 1 []] =
      (3.5, 4, 2)"
    by (simp add: weighted_mean_reference_def q Let_def sum_weight_def sum_time_weight_def)
      (simp add: example_simps)
  then show ?thesis
    using endcap_only_is_single_scan [OF f, of deltaR2_eta_phi axis "[hit 0 3 1 1 []]"
        "[hit 5 1 2 1 [], hit 2 3 4 1 []]"]
    by metis
qed

section \<open>The di-jet filter: lemmas\<close>

subsection \<open>The tau loops\<close>

lemma fold_tau2_step:
  "fold (tau2_step deltaR2 self j1 j2 taus i) ks c \<longleftrightarrow>
     c \<or> (\<exists>k \<in> set ks. isolated deltaR2 self j1 j2 (taus ! k) \<and>
            (pt (taus ! i) \<ge> extraTauPtCut self \<or> pt (taus ! k) \<ge> extraTauPtCut self))"
  by (induction ks arbitrary: c) (auto simp: tau2_step_def isolated_def not_less)

lemma tau_pair_passes_bounds:
  "tau_pair_passes deltaR2 self j1 j2 taus i k \<Longrightarrow> i < k \<and> k < length taus"
  by (simp add: tau_pair_passes_def)

lemma tau1_step_iff:
  "tau1_step deltaR2 self j1 j2 taus i c \<longleftrightarrow>
     c \<or> (\<exists>k. tau_pair_passes deltaR2 self j1 j2 taus i k)"
proof (cases "isolated deltaR2 self j1 j2 (taus ! i)")
  case False
  then have "tau1_step deltaR2 self j1 j2 taus i c = c"
    by (auto simp: tau1_step_def isolated_def)
  with False show ?thesis
    by (simp add: tau_pair_passes_def)
next
  case True
  then have "tau1_step deltaR2 self j1 j2 taus i c =
      fold (tau2_step deltaR2 self j1 j2 taus i) [i + 1 ..< length taus] c"
    by (auto simp: tau1_step_def isolated_def)
  also have "\<dots> \<longleftrightarrow> c \<or> (\<exists>k \<in> set [i + 1 ..< length taus].
      isolated deltaR2 self j1 j2 (taus ! k) \<and>
      (pt (taus ! i) \<ge> extraTauPtCut self \<or> pt (taus ! k) \<ge> extraTauPtCut self))"
    by (rule fold_tau2_step)
  also have "\<dots> \<longleftrightarrow> c \<or> (\<exists>k. tau_pair_passes deltaR2 self j1 j2 taus i k)"
    using True by (auto simp: tau_pair_passes_def)
  finally show ?thesis .
qed

lemma fold_tau1_step:
  "fold (tau1_step deltaR2 self j1 j2 taus) is c \<longleftrightarrow>
     c \<or> (\<exists>i \<in> set is. \<exists>k. tau_pair_passes deltaR2 self j1 j2 taus i k)"
proof (induction "is" arbitrary: c)
  case Nil
  show ?case by simp
next
  case (Cons i "is")
  have "fold (tau1_step deltaR2 self j1 j2 taus) (i # is) c =
      fold (tau1_step deltaR2 self j1 j2 taus) is (tau1_step deltaR2 self j1 j2 taus i c)"
    by simp
  also have "\<dots> \<longleftrightarrow> tau1_step deltaR2 self j1 j2 taus i c \<or>
      (\<exists>i \<in> set is. \<exists>k. tau_pair_passes deltaR2 self j1 j2 taus i k)"
    by (rule Cons.IH)
  also have "\<dots> \<longleftrightarrow> c \<or> (\<exists>i \<in> set (i # is). \<exists>k. tau_pair_passes deltaR2 self j1 j2 taus i k)"
    unfolding tau1_step_iff by auto
  finally show ?case .
qed

lemma correctComb_of_iff:
  "correctComb_of deltaR2 self j1 j2 taus \<longleftrightarrow>
     (\<exists>i k. tau_pair_passes deltaR2 self j1 j2 taus i k)"
proof -
  have "\<And>i k. tau_pair_passes deltaR2 self j1 j2 taus i k \<Longrightarrow> i \<in> set [0 ..< length taus]"
    using tau_pair_passes_bounds [of deltaR2 self j1 j2 taus] by fastforce
  then show ?thesis
    unfolding correctComb_of_def fold_tau1_step by blast
qed

lemma list_ex_tau_pair_passes:
  "list_ex (\<lambda>iTau2. list_ex (\<lambda>iTau1. tau_pair_passes deltaR2 self j1 j2 taus iTau1 iTau2)
      [0 ..< iTau2]) [0 ..< length taus] \<longleftrightarrow>
   (\<exists>i k. tau_pair_passes deltaR2 self j1 j2 taus i k)"
proof
  assume "\<exists>i k. tau_pair_passes deltaR2 self j1 j2 taus i k"
  then obtain i k where ok: "tau_pair_passes deltaR2 self j1 j2 taus i k"
    by blast
  then have "k \<in> set [0 ..< length taus]" and "i \<in> set [0 ..< k]"
    using tau_pair_passes_bounds [OF ok] by simp_all
  with ok show "list_ex (\<lambda>iTau2. list_ex (\<lambda>iTau1. tau_pair_passes deltaR2 self j1 j2 taus iTau1 iTau2)
      [0 ..< iTau2]) [0 ..< length taus]"
    unfolding list_ex_iff by blast
qed (auto simp: list_ex_iff)

lemma pair_marked_iff:
  "pair_marked deltaR2 self pfJets taus a b \<longleftrightarrow>
     a < b \<and> b < length pfJets \<and>
     \<not> M (plus_p4 (p4 (pfJets ! a)) (p4 (pfJets ! b))) < mjjMin self \<and>
     correctComb_of deltaR2 self (pfJets ! a) (pfJets ! b) taus"
  by (simp add: pair_marked_def correctComb_of_iff list_ex_tau_pair_passes not_less)

subsection \<open>The index set\<close>

lemma set_set_insert: "set (set_insert i ks) = insert i (set ks)"
  by (induction ks) auto

lemma sorted_set_insert:
  "sorted ks \<Longrightarrow> distinct ks \<Longrightarrow> sorted (set_insert i ks) \<and> distinct (set_insert i ks)"
  by (induction ks) (auto simp: set_set_insert)

lemma jet2_step_set:
  "set (jet2_step deltaR2 self pfJets taus a b idx) =
     set idx \<union> (if \<not> M (plus_p4 (p4 (pfJets ! a)) (p4 (pfJets ! b))) < mjjMin self \<and>
                   correctComb_of deltaR2 self (pfJets ! a) (pfJets ! b) taus
                 then {a, b} else {})"
  by (auto simp: jet2_step_def Let_def set_set_insert)

lemma jet2_step_sorted:
  "sorted idx \<and> distinct idx \<Longrightarrow>
   sorted (jet2_step deltaR2 self pfJets taus a b idx) \<and>
   distinct (jet2_step deltaR2 self pfJets taus a b idx)"
  by (simp add: jet2_step_def Let_def sorted_set_insert)

lemma fold_jet2_step_set:
  "\<forall>b \<in> set bs. a < b \<and> b < length pfJets \<Longrightarrow>
   set (fold (jet2_step deltaR2 self pfJets taus a) bs idx) =
     set idx \<union> {i. \<exists>b \<in> set bs. pair_marked deltaR2 self pfJets taus a b \<and> (i = a \<or> i = b)}"
proof (induction bs arbitrary: idx)
  case Nil
  show ?case by simp
next
  case (Cons b bs)
  then show ?case
    by (auto simp: jet2_step_set pair_marked_iff split: if_splits)
qed

lemma fold_jet2_step_sorted:
  "sorted idx \<and> distinct idx \<Longrightarrow>
   sorted (fold (jet2_step deltaR2 self pfJets taus a) bs idx) \<and>
   distinct (fold (jet2_step deltaR2 self pfJets taus a) bs idx)"
  by (induction bs arbitrary: idx) (simp_all add: jet2_step_sorted)

lemma jet1_step_set:
  "set (jet1_step deltaR2 self pfJets taus a idx) =
     set idx \<union> {i. \<exists>b. pair_marked deltaR2 self pfJets taus a b \<and> (i = a \<or> i = b)}"
proof -
  have r: "\<forall>b \<in> set [a + 1 ..< length pfJets]. a < b \<and> b < length pfJets"
    by auto
  have "\<And>b. pair_marked deltaR2 self pfJets taus a b \<Longrightarrow> b \<in> set [a + 1 ..< length pfJets]"
    by (simp add: pair_marked_def)
  then show ?thesis
    unfolding jet1_step_def fold_jet2_step_set [OF r] by blast
qed

lemma fold_jet1_step_set:
  "set (fold (jet1_step deltaR2 self pfJets taus) as idx) =
     set idx \<union> {i. \<exists>a \<in> set as. \<exists>b. pair_marked deltaR2 self pfJets taus a b \<and> (i = a \<or> i = b)}"
  by (induction as arbitrary: idx) (auto simp: jet1_step_set)

lemma fold_jet1_step_sorted:
  "sorted idx \<and> distinct idx \<Longrightarrow>
   sorted (fold (jet1_step deltaR2 self pfJets taus) as idx) \<and>
   distinct (fold (jet1_step deltaR2 self pfJets taus) as idx)"
  by (induction as arbitrary: idx) (simp_all add: jet1_step_def fold_jet2_step_sorted)

lemma pair_marked_sizes:
  assumes "pair_marked deltaR2 self pfJets taus a b"
  shows "length pfJets > 1 \<and> length taus > 1"
proof -
  from assms obtain i k where "tau_pair_passes deltaR2 self (pfJets ! a) (pfJets ! b) taus i k"
    unfolding pair_marked_def list_ex_tau_pair_passes by blast
  then have "i < k \<and> k < length taus"
    by (rule tau_pair_passes_bounds)
  moreover have "a < b \<and> b < length pfJets"
    using assms by (simp add: pair_marked_def)
  ultimately show ?thesis by linarith
qed

lemma set_collect_indices:
  "set (collect_indices deltaR2 self pfJets taus) =
     {i. \<exists>a b. pair_marked deltaR2 self pfJets taus a b \<and> (i = a \<or> i = b)}"
proof (cases "length pfJets > 1 \<and> length taus > 1")
  case True
  have "\<And>a b. pair_marked deltaR2 self pfJets taus a b \<Longrightarrow> a < length pfJets"
    by (auto simp: pair_marked_def)
  then show ?thesis
    using True by (auto simp: collect_indices_def fold_jet1_step_set)
next
  case False
  then show ?thesis
    using pair_marked_sizes [of deltaR2 self pfJets taus] by (auto simp: collect_indices_def)
qed

lemma sorted_collect_indices:
  "sorted (collect_indices deltaR2 self pfJets taus) \<and>
   distinct (collect_indices deltaR2 self pfJets taus)"
  by (simp add: collect_indices_def fold_jet1_step_sorted)

lemma collect_indices_bound:
  "i \<in> set (collect_indices deltaR2 self pfJets taus) \<Longrightarrow> i < length pfJets"
  by (auto simp: set_collect_indices pair_marked_def)

subsection \<open>Sorting\<close>

lemma mset_insert_sorted: "mset (insert_sorted cmp x xs) = add_mset x (mset xs)"
  by (induction xs) auto

lemma mset_fold_insert_sorted:
  "mset (fold (insert_sorted cmp) xs acc) = mset xs + mset acc"
  by (induction xs arbitrary: acc) (auto simp: mset_insert_sorted)

lemma mset_std_sort: "mset (std_sort cmp xs) = mset xs"
  by (simp add: std_sort_def mset_fold_insert_sorted)

lemma set_insert_sorted: "set (insert_sorted cmp x xs) = insert x (set xs)"
  by (induction xs) auto

lemma descending_insert_sorted:
  "sorted_wrt (\<lambda>a b. pt a \<ge> pt b) xs \<Longrightarrow>
   sorted_wrt (\<lambda>a b. pt a \<ge> pt b) (insert_sorted GreaterByPt x xs)"
  by (induction xs) (auto simp: GreaterByPt_def set_insert_sorted)

lemma descending_fold_insert_sorted:
  "sorted_wrt (\<lambda>a b. pt a \<ge> pt b) acc \<Longrightarrow>
   sorted_wrt (\<lambda>a b. pt a \<ge> pt b) (fold (insert_sorted GreaterByPt) xs acc)"
  by (induction xs arbitrary: acc) (simp_all add: descending_insert_sorted)

lemma descending_std_sort: "sorted_wrt (\<lambda>a b. pt a \<ge> pt b) (std_sort GreaterByPt xs)"
  by (simp add: std_sort_def descending_fold_insert_sorted)

lemma mset_produce_dijet:
  "mset (produce_dijet deltaR2 self pfJets taus) =
     mset (map (\<lambda>i. pfJets ! i) (collect_indices deltaR2 self pfJets taus))"
  by (simp only: produce_dijet_def Let_def mset_std_sort)

lemma pair_marked_mono:
  assumes "m1 \<le> m2" and "pair_marked deltaR2 (self\<lparr>mjjMin := m2\<rparr>) pfJets taus a b"
  shows "pair_marked deltaR2 (self\<lparr>mjjMin := m1\<rparr>) pfJets taus a b"
proof -
  have "\<And>i k. tau_pair_passes deltaR2 (self\<lparr>mjjMin := m2\<rparr>) (pfJets ! a) (pfJets ! b) taus i k =
      tau_pair_passes deltaR2 (self\<lparr>mjjMin := m1\<rparr>) (pfJets ! a) (pfJets ! b) taus i k"
    by (simp add: tau_pair_passes_def isolated_def)
  then show ?thesis
    using assms by (auto simp: pair_marked_def)
qed

lemma mset_distinct_subset:
  assumes "distinct xs" and "distinct ys" and "set xs \<subseteq> set ys"
  shows "mset xs \<subseteq># mset ys"
proof -
  have "mset_set (set xs) \<subseteq># mset_set (set ys)"
    using assms(3) by (simp add: subset_imp_msubset_mset_set)
  then show ?thesis
    using assms(1,2) by (simp add: mset_set_set)
qed

subsection \<open>The example inputs\<close>

lemma Eta_plane: "Eta (xyzt x y 0 t) = 0"
  by (simp add: Eta_def xyzt_def)

lemma Phi_values:
  "Phi (xyzt 2 0 0 2) = 0" "Phi (xyzt (- 1) 0 0 1) = pi" "Phi (xyzt 0 1 0 1) = pi / 2"
  "Phi (xyzt 0 (- 1) 0 1) = - (pi / 2)"
  by (simp_all add: Phi_def xyzt_def)

lemma dr_values:
  "deltaR2_p4 (xyzt 0 1 0 1) (xyzt 2 0 0 2) = (pi / 2)\<^sup>2"
  "deltaR2_p4 (xyzt 0 1 0 1) (xyzt (- 1) 0 0 1) = (pi / 2)\<^sup>2"
  "deltaR2_p4 (xyzt 0 1 0 1) (xyzt 0 (- 1) 0 1) = pi\<^sup>2"
  "deltaR2_p4 (xyzt 0 1 0 1) (xyzt 0 1 0 1) = 0"
  using pi_gt_zero by (simp_all add: deltaR2_p4_def Eta_plane Phi_values Let_def)

lemma vbf_fields: "extraTauPtCut (vbf m) = 1" "mjjMin (vbf m) = m" "matchingR2 (vbf m) = 1 / 4"
  by (simp_all add: vbf_def HLTPFDiJetCorrCheckerWithDiTau_ctor_def power2_eq_square)

lemma one_le_pi2: "1 \<le> pi\<^sup>2"
proof -
  have "(1::real)\<^sup>2 \<le> pi\<^sup>2"
    by (rule power_mono) (use pi_ge_two in simp_all)
  then show ?thesis by simp
qed

lemma tauD_far:
  "j \<in> {jetA, jetB, jetC} \<Longrightarrow> deltaR2_p4 (p4 tauD) (p4 j) \<ge> matchingR2 (vbf m)"
  using one_le_pi2
  by (auto simp: vbf_fields jetA_def jetB_def jetC_def tauD_def dr_values power_divide)

lemma tauD_pair:
  assumes "j1 \<in> {jetA, jetB, jetC}" and "j2 \<in> {jetA, jetB, jetC}"
  shows "correctComb_of deltaR2_p4 (vbf m) j1 j2 [tauD, tauD]"
proof -
  have "isolated deltaR2_p4 (vbf m) j1 j2 tauD"
    unfolding isolated_def using assms tauD_far by blast
  then have "tau_pair_passes deltaR2_p4 (vbf m) j1 j2 [tauD, tauD] 0 1"
    by (simp add: tau_pair_passes_def vbf_fields tauD_def)
  then show ?thesis
    unfolding correctComb_of_iff by blast
qed

lemma mjj_values:
  "\<not> M (plus_p4 (p4 jetB) (p4 jetA)) < 1"
  "M (plus_p4 (p4 jetB) (p4 jetA)) < 3"
  "\<not> M (plus_p4 (p4 jetB) (p4 jetC)) < 1"
  "\<not> M (plus_p4 (p4 jetA) (p4 jetC)) < 1"
proof -
  show "\<not> M (plus_p4 (p4 jetB) (p4 jetA)) < 1"
    by (simp add: M_def plus_p4_def jetA_def jetB_def xyzt_def)
  have "sqrt 8 < 3"
    by (rule real_less_lsqrt) simp_all
  then show "M (plus_p4 (p4 jetB) (p4 jetA)) < 3"
    by (simp add: M_def plus_p4_def jetA_def jetB_def xyzt_def)
  show "\<not> M (plus_p4 (p4 jetB) (p4 jetC)) < 1"
    by (simp add: M_def plus_p4_def jetB_def jetC_def xyzt_def)
  show "\<not> M (plus_p4 (p4 jetA) (p4 jetC)) < 1"
    by (simp add: M_def plus_p4_def jetA_def jetC_def xyzt_def)
qed

lemma collect_two:
  "collect_indices deltaR2_p4 (vbf 1) [jetB, jetA] [tauD, tauD] = [0, 1]"
  by (simp add: collect_indices_def jet1_step_def jet2_step_def vbf_fields mjj_values tauD_pair)

lemma collect_two_high:
  "collect_indices deltaR2_p4 (vbf 3) [jetB, jetA] [tauD, tauD] = []"
  by (simp add: collect_indices_def jet1_step_def jet2_step_def vbf_fields mjj_values)

lemma collect_three:
  "collect_indices deltaR2_p4 (vbf 1) [jetB, jetA, jetC] [tauD, tauD] = [0, 1, 2]"
  by (simp add: collect_indices_def jet1_step_def jet2_step_def vbf_fields mjj_values tauD_pair)

lemma produce_two:
  "produce_dijet deltaR2_p4 (vbf 1) [jetB, jetA] [tauD, tauD] = [jetA, jetB]"
  by (simp add: produce_dijet_def collect_two std_sort_def GreaterByPt_def)
    (simp add: jetA_def jetB_def)

lemma produce_three:
  "produce_dijet deltaR2_p4 (vbf 1) [jetB, jetA, jetC] [tauD, tauD] = [jetA, jetB, jetC]"
  by (simp add: produce_dijet_def collect_three std_sort_def GreaterByPt_def)
    (simp add: jetA_def jetB_def jetC_def)

lemma vbf_update: "(vbf m)\<lparr>mjjMin := m'\<rparr> = vbf m'"
  by (simp add: vbf_def HLTPFDiJetCorrCheckerWithDiTau_ctor_def)

section \<open>The di-jet filter: theorems\<close>

text \<open>
  C3: the code does not do what the claim and the header of the source file say. The
  loops compare each tau with the two jets and never the two taus with each other.
  Jets B and A pass the mass threshold, the tau collection holds tau D twice, the tau
  is far from the two jets, and the jet pair is marked and collected; the only tau
  pair there is has squared angular distance 0, below the squared \<open>dRmin\<close>, so no tau
  pair qualifies for the jet pair.
\<close>

theorem coincident_taus_mark_jet_pair:
  "length [jetB, jetA] > 1 \<and> length [tauD, tauD] = 2
   \<and> \<not> M (plus_p4 (p4 ([jetB, jetA] ! 0)) (p4 ([jetB, jetA] ! 1))) < mjjMin (vbf 1)
   \<and> correctComb_of deltaR2_p4 (vbf 1) ([jetB, jetA] ! 0) ([jetB, jetA] ! 1) [tauD, tauD]
   \<and> collect_indices deltaR2_p4 (vbf 1) [jetB, jetA] [tauD, tauD] = [0, 1]
   \<and> deltaR2_p4 (p4 ([tauD, tauD] ! 0)) (p4 ([tauD, tauD] ! 1)) < matchingR2 (vbf 1)
   \<and> \<not> qualifying_tau_pair deltaR2_p4 (vbf 1) ([jetB, jetA] ! 0) ([jetB, jetA] ! 1)
         [tauD, tauD] 0 1"
  by (simp add: collect_two tauD_pair mjj_values vbf_fields qualifying_tau_pair_def)
    (simp add: tauD_def dr_values)

text \<open>
  C5, as the claim states it, fails: jets B and A, of transverse momenta 1 and 2, are
  both retained and emitted as A, B.
\<close>

theorem ascending_counterexample:
  "\<not> sorted (map pt (produce_dijet deltaR2_p4 (vbf 1) [jetB, jetA] [tauD, tauD]))"
  by (simp add: produce_two) (simp add: jetA_def jetB_def)

text \<open>
  C5, amended: the emitted jet collection is sorted descending by transverse momentum:
  the transverse momentum of each element is greater than or equal to that of every
  later element.
\<close>

theorem output_sorted_descending:
  "sorted_wrt (\<lambda>a b. pt a \<ge> pt b) (produce_dijet deltaR2 self pfJets taus)"
  by (simp only: produce_dijet_def Let_def descending_std_sort)

theorem output_sorted_descending_witness:
  "sorted_wrt (\<lambda>a b. pt a \<ge> pt b) [jetA, jetB, jetC]"
  using output_sorted_descending [of deltaR2_p4 "vbf 1" "[jetB, jetA, jetC]" "[tauD, tauD]"]
  by (simp only: produce_three)

text \<open>
  C6: for fixed jets, taus, tau cut and \<open>dRmin\<close>, and thresholds \<open>m1 \<le> m2\<close>, the indices
  retained with \<open>mjjMin = m2\<close> are among those retained with \<open>mjjMin = m1\<close>, and so are
  the emitted jets, as sets and with their multiplicities.
\<close>

theorem raising_mjjMin_shrinks:
  assumes "m1 \<le> m2"
  shows "set (collect_indices deltaR2 (self\<lparr>mjjMin := m2\<rparr>) pfJets taus)
           \<subseteq> set (collect_indices deltaR2 (self\<lparr>mjjMin := m1\<rparr>) pfJets taus)
         \<and> mset (produce_dijet deltaR2 (self\<lparr>mjjMin := m2\<rparr>) pfJets taus)
           \<subseteq># mset (produce_dijet deltaR2 (self\<lparr>mjjMin := m1\<rparr>) pfJets taus)
         \<and> set (produce_dijet deltaR2 (self\<lparr>mjjMin := m2\<rparr>) pfJets taus)
           \<subseteq> set (produce_dijet deltaR2 (self\<lparr>mjjMin := m1\<rparr>) pfJets taus)"
proof -
  let ?i1 = "collect_indices deltaR2 (self\<lparr>mjjMin := m1\<rparr>) pfJets taus"
  let ?i2 = "collect_indices deltaR2 (self\<lparr>mjjMin := m2\<rparr>) pfJets taus"
  have sub: "set ?i2 \<subseteq> set ?i1"
    unfolding set_collect_indices using pair_marked_mono [OF assms] by blast
  have "mset ?i2 \<subseteq># mset ?i1"
    using sub sorted_collect_indices by (intro mset_distinct_subset) simp_all
  then have "image_mset (\<lambda>i. pfJets ! i) (mset ?i2) \<subseteq># image_mset (\<lambda>i. pfJets ! i) (mset ?i1)"
    by (rule image_mset_subseteq_mono)
  then have m: "mset (produce_dijet deltaR2 (self\<lparr>mjjMin := m2\<rparr>) pfJets taus)
           \<subseteq># mset (produce_dijet deltaR2 (self\<lparr>mjjMin := m1\<rparr>) pfJets taus)"
    by (simp add: mset_produce_dijet)
  then have "set (produce_dijet deltaR2 (self\<lparr>mjjMin := m2\<rparr>) pfJets taus)
           \<subseteq> set (produce_dijet deltaR2 (self\<lparr>mjjMin := m1\<rparr>) pfJets taus)"
    by (rule set_mset_mono [of "mset _" "mset _", simplified])
  with sub m show ?thesis by blast
qed

theorem raising_mjjMin_shrinks_witness:
  "set (collect_indices deltaR2_p4 (vbf 3) [jetB, jetA] [tauD, tauD])
     \<subseteq> set (collect_indices deltaR2_p4 (vbf 1) [jetB, jetA] [tauD, tauD])
   \<and> collect_indices deltaR2_p4 (vbf 3) [jetB, jetA] [tauD, tauD] = []
   \<and> collect_indices deltaR2_p4 (vbf 1) [jetB, jetA] [tauD, tauD] = [0, 1]"
proof -
  have "(1::real) \<le> 3" by simp
  from raising_mjjMin_shrinks [OF this, of deltaR2_p4 "vbf 0" "[jetB, jetA]" "[tauD, tauD]"]
  have "set (collect_indices deltaR2_p4 (vbf 3) [jetB, jetA] [tauD, tauD])
     \<subseteq> set (collect_indices deltaR2_p4 (vbf 1) [jetB, jetA] [tauD, tauD])"
    by (simp only: vbf_update)
  then show ?thesis
    using collect_two collect_two_high by blast
qed

text \<open>
  C8: when the jet collection or the tau collection has fewer than two elements, the
  emitted jet collection is empty.
\<close>

theorem small_collections_give_empty:
  assumes "length pfJets < 2 \<or> length taus < 2"
  shows "produce_dijet deltaR2 self pfJets taus = []"
  using assms by (auto simp: produce_dijet_def collect_indices_def std_sort_def)

theorem small_collections_give_empty_witness:
  "produce_dijet deltaR2_p4 (vbf 1) [jetB, jetA, jetC] [tauD] = [] \<and>
   produce_dijet deltaR2_p4 (vbf 1) [jetA] [tauD, tauD] = []"
  using small_collections_give_empty [of "[jetB, jetA, jetC]" "[tauD]" deltaR2_p4 "vbf 1"]
    small_collections_give_empty [of "[jetA]" "[tauD, tauD]" deltaR2_p4 "vbf 1"]
  by simp

text \<open>
  C9: the code does not do what the claim says, by the defect of C3. Each collected
  index is emitted once, but an index is collected as soon as a tau pair passes the
  tests of the loops, which do not include the isolation of the two taus from each
  other: jets B and A are both emitted for the tau collection that holds tau D twice,
  and no jet pair qualifies there.
\<close>

theorem jets_retained_without_qualifying_pair:
  "produce_dijet deltaR2_p4 (vbf 1) [jetB, jetA] [tauD, tauD] = [jetA, jetB]
   \<and> collect_indices deltaR2_p4 (vbf 1) [jetB, jetA] [tauD, tauD] = [0, 1]
   \<and> \<not> (\<exists>iJet1 iJet2.
          qualifying_jet_pair deltaR2_p4 (vbf 1) [jetB, jetA] [tauD, tauD] iJet1 iJet2)"
proof -
  have "\<not> qualifying_tau_pair deltaR2_p4 (vbf 1) j1 j2 [tauD, tauD] i k" for j1 j2 i k
  proof
    assume q: "qualifying_tau_pair deltaR2_p4 (vbf 1) j1 j2 [tauD, tauD] i k"
    then have "i < k" and "k < 2"
      by (simp_all add: qualifying_tau_pair_def)
    then have "i = 0" and "k = 1"
      by simp_all
    with q show False
      by (simp add: qualifying_tau_pair_def vbf_fields tauD_def dr_values)
  qed
  then have "\<not> qualifying_jet_pair deltaR2_p4 (vbf 1) [jetB, jetA] [tauD, tauD] a b" for a b
    by (simp add: qualifying_jet_pair_def list_ex_iff)
  then show ?thesis
    by (simp add: produce_two collect_two)
qed

end
